theory Spec2Isabelle
  imports Main "HOL-Library.Word"
begin

unbundle bit_operations_syntax

section \<open>Timespec arithmetic (src/impl/unix.cc, lines 55-160)\<close>

text \<open>
  \<^verbatim>\<open>struct timespec\<close> has the two signed fields \<^verbatim>\<open>tv_sec\<close> and \<^verbatim>\<open>tv_nsec\<close>.
  This section has the timespec functions in exact arithmetic: the fields are
  mathematical integers and the literal \<^verbatim>\<open>1e9\<close> is the integer \<open>1000000000\<close>. These are
  the functions the handle computes its deadlines with below. The next section has the
  same functions in the arithmetic of the machine (64-bit fields, the \<^verbatim>\<open>double\<close>
  literal \<^verbatim>\<open>1e9\<close>, the unsigned product of \<^verbatim>\<open>operator*\<close>), and the lemmas
  \<open>normalize_long_exact\<close>, \<open>plus_long_exact\<close>, \<open>minus_long_exact\<close>, \<open>times_long_exact\<close> and
  \<open>from_millis_long_exact\<close> give the range in which the two agree: no field leaves 64
  bits and no nanosecond count exceeds \<open>2^53\<close> in magnitude.
\<close>

record timespec =
  tv_sec :: int
  tv_nsec :: int

text \<open>The first loop of \<^verbatim>\<open>normalize\<close>: \<^verbatim>\<open>while (ts->tv_nsec < 0)\<close>.\<close>

function normalize_neg :: "timespec \<Rightarrow> timespec" where
  "normalize_neg ts =
     (if tv_nsec ts < 0
      then normalize_neg (ts\<lparr>tv_nsec := tv_nsec ts + 1000000000, tv_sec := tv_sec ts - 1\<rparr>)
      else ts)"
  by pat_completeness auto
termination
  by (relation "measure (\<lambda>ts. nat (- tv_nsec ts))") auto

text \<open>The second loop of \<^verbatim>\<open>normalize\<close>: \<^verbatim>\<open>while (ts->tv_nsec >= 1e9)\<close>.\<close>

function normalize_pos :: "timespec \<Rightarrow> timespec" where
  "normalize_pos ts =
     (if tv_nsec ts \<ge> 1000000000
      then normalize_pos (ts\<lparr>tv_nsec := tv_nsec ts - 1000000000, tv_sec := tv_sec ts + 1\<rparr>)
      else ts)"
  by pat_completeness auto
termination
  by (relation "measure (\<lambda>ts. nat (tv_nsec ts))") auto

declare normalize_neg.simps [simp del]
declare normalize_pos.simps [simp del]

text \<open>\<^verbatim>\<open>normalize\<close>: the two loops, one after the other.\<close>

definition normalize_timespec :: "timespec \<Rightarrow> timespec" where
  "normalize_timespec ts = normalize_pos (normalize_neg ts)"

text \<open>\<^verbatim>\<open>operator+\<close>, \<^verbatim>\<open>operator-\<close> and \<^verbatim>\<open>operator*\<close> on timespecs.\<close>

definition timespec_plus :: "timespec \<Rightarrow> timespec \<Rightarrow> timespec" where
  "timespec_plus a b =
     normalize_timespec \<lparr>tv_sec = tv_sec a + tv_sec b, tv_nsec = tv_nsec a + tv_nsec b\<rparr>"

definition timespec_minus :: "timespec \<Rightarrow> timespec \<Rightarrow> timespec" where
  "timespec_minus a b =
     normalize_timespec \<lparr>tv_sec = tv_sec a - tv_sec b, tv_nsec = tv_nsec a - tv_nsec b\<rparr>"

definition timespec_times :: "timespec \<Rightarrow> nat \<Rightarrow> timespec" where
  "timespec_times ts mul =
     normalize_timespec \<lparr>tv_sec = tv_sec ts * int mul, tv_nsec = tv_nsec ts * int mul\<rparr>"

text \<open>\<^verbatim>\<open>min\<close>: the first argument when it is strictly smaller, else the second.\<close>

definition timespec_min :: "timespec \<Rightarrow> timespec \<Rightarrow> timespec" where
  "timespec_min a b =
     (if tv_sec a < tv_sec b \<or> (tv_sec a = tv_sec b \<and> tv_nsec a < tv_nsec b) then a else b)"

definition timespec_from_millis :: "nat \<Rightarrow> timespec" where
  "timespec_from_millis millis = normalize_timespec \<lparr>tv_sec = 0, tv_nsec = int (millis * 1000000)\<rparr>"

text \<open>The time a timespec stands for, in nanoseconds.\<close>

definition total_ns :: "timespec \<Rightarrow> int" where
  "total_ns ts = tv_sec ts * 1000000000 + tv_nsec ts"

section \<open>The handle and its timeout profile\<close>

text \<open>
  Modelled from the spec: the declaration of \<^verbatim>\<open>serial::Timeout\<close>, which is in the header
  \<^verbatim>\<open>serial/serial.h\<close> and not among the sources. The specification has it as
  non-negative integer durations (a read and a write constant, a read and a write
  multiplier and an inter-byte limit) in one fixed unit; the names of the five fields
  are those \<^verbatim>\<open>setTimeout\<close> reads, and the unit is the millisecond of
  \<^verbatim>\<open>timespec_from_millis\<close>.
\<close>

record Timeout =
  inter_byte_timeout :: nat
  read_timeout_constant :: nat
  read_timeout_multiplier :: nat
  write_timeout_constant :: nat
  write_timeout_multiplier :: nat

text \<open>
  Modelled from the spec: the enumerations \<^verbatim>\<open>bytesize_t\<close>, \<^verbatim>\<open>parity_t\<close>,
  \<^verbatim>\<open>stopbits_t\<close> and \<^verbatim>\<open>flowcontrol_t\<close> of the same header (byte size 5 to 8, parity,
  stop bits 1, 1.5 or 2, flow control none, software or hardware). Each has the
  enumerators \<^verbatim>\<open>reconfigurePort\<close> compares with and one more constructor for any other
  value of the C++ type (a parity the platform does not offer, a value cast from an
  integer), which is what its \<^verbatim>\<open>else throw invalid_argument\<close> branches are for.
\<close>

datatype bytesize_t = fivebits | sixbits | sevenbits | eightbits | bytesize_other int
datatype parity_t = parity_none | parity_odd | parity_even | parity_other int
datatype stopbits_t =
  stopbits_one | stopbits_one_point_five | stopbits_two | stopbits_other int
datatype flowcontrol_t =
  flowcontrol_none | flowcontrol_software | flowcontrol_hardware | flowcontrol_other int

text \<open>
  The data members of \<^verbatim>\<open>Serial::SerialImpl\<close>. A member \<^verbatim>\<open>name_\<close> of the source is the
  field \<open>name_'\<close>. The two mutexes carry no data and are not part of the record.
\<close>

record SerialImpl =
  port_' :: string
  fd_' :: int
  is_open_' :: bool
  xonxoff_' :: bool
  rtscts_' :: bool
  timeout_' :: Timeout
  baudrate_' :: nat
  parity_' :: parity_t
  bytesize_' :: bytesize_t
  stopbits_' :: stopbits_t
  flowcontrol_' :: flowcontrol_t
  inter_byte_timeout_' :: timespec
  read_timeout_constant_' :: timespec
  read_timeout_multiplier_' :: timespec
  write_timeout_constant_' :: timespec
  write_timeout_multiplier_' :: timespec

text \<open>
  \<^verbatim>\<open>setTimeout\<close> stores the profile and caches five timespecs. The cached read multiplier
  is computed from \<^verbatim>\<open>timeout.read_timeout_constant\<close>, as line 707 of the source has it.
\<close>

definition setTimeout :: "Timeout \<Rightarrow> SerialImpl \<Rightarrow> SerialImpl" where
  "setTimeout timeout s = s\<lparr>
     timeout_' := timeout,
     inter_byte_timeout_' := timespec_from_millis (inter_byte_timeout timeout),
     read_timeout_constant_' := timespec_from_millis (read_timeout_constant timeout),
     read_timeout_multiplier_' := timespec_from_millis (read_timeout_constant timeout),
     write_timeout_constant_' := timespec_from_millis (write_timeout_constant timeout),
     write_timeout_multiplier_' := timespec_from_millis (write_timeout_multiplier timeout)\<rparr>"

definition getTimeout :: "SerialImpl \<Rightarrow> Timeout" where
  "getTimeout s = timeout_' s"

section \<open>The timespec functions in the arithmetic of the machine\<close>

text \<open>
  The same functions once more, with the arithmetic the compiled source performs on an
  LP64 platform. \<^verbatim>\<open>tv_sec\<close> and \<^verbatim>\<open>tv_nsec\<close> are 64-bit signed integers (\<^verbatim>\<open>long\<close>),
  here integers that satisfy \<open>is_long\<close>. A result is \<open>None\<close> where the C++ standard leaves
  the behaviour undefined: a signed overflow, or a \<^verbatim>\<open>double\<close> that does not fit the
  \<^verbatim>\<open>long\<close> it is converted to.
\<close>

definition is_long :: "int \<Rightarrow> bool" where
  "is_long x = (- 9223372036854775808 \<le> x \<and> x < 9223372036854775808)"

definition long_of :: "int \<Rightarrow> int option" where
  "long_of x = (if is_long x then Some x else None)"

text \<open>
  An unsigned 64-bit value converted to \<^verbatim>\<open>long\<close> (and so any integer taken modulo
  \<open>2^64\<close>): the two's complement reading.
\<close>

definition wrap_long :: "int \<Rightarrow> int" where
  "wrap_long x = (x + 9223372036854775808) mod 18446744073709551616 - 9223372036854775808"

text \<open>
  The conversion of an integer to \<^verbatim>\<open>double\<close> (IEEE 754 binary64, round to nearest, ties to
  even): the magnitude keeps its 53 leading bits. \<open>ulp_exp m\<close> is the number of bits that
  are dropped, \<open>9007199254740992\<close> is \<open>2^53\<close>. Every \<^verbatim>\<open>double\<close> that occurs below is an
  integer, and the sum or difference of two of them, rounded, is the \<^verbatim>\<open>double\<close> of the
  exact sum or difference.
\<close>

function ulp_exp :: "nat \<Rightarrow> nat" where
  "ulp_exp m = (if m < 9007199254740992 then 0 else Suc (ulp_exp (m div 2)))"
  by pat_completeness auto
termination
  by (relation "measure (\<lambda>m. m)") auto

declare ulp_exp.simps [simp del]

definition round_magnitude :: "nat \<Rightarrow> nat" where
  "round_magnitude m =
     (let u = 2 ^ ulp_exp m; q = m div u; r = m mod u
      in (if 2 * r > u \<or> (2 * r = u \<and> odd q) then q + 1 else q) * u)"

definition double_of :: "int \<Rightarrow> int" where
  "double_of x = sgn x * int (round_magnitude (nat \<bar>x\<bar>))"

text \<open>
  \<^verbatim>\<open>ts->tv_nsec += 1e9\<close> and \<^verbatim>\<open>ts->tv_nsec -= 1e9\<close>: the field is converted to
  \<^verbatim>\<open>double\<close>, \<^verbatim>\<open>1e9\<close> is added or subtracted in \<^verbatim>\<open>double\<close>, and the result is converted
  back to \<^verbatim>\<open>long\<close>.
\<close>

definition long_plus_1e9 :: "int \<Rightarrow> int option" where
  "long_plus_1e9 n = long_of (double_of (double_of n + 1000000000))"

definition long_minus_1e9 :: "int \<Rightarrow> int option" where
  "long_minus_1e9 n = long_of (double_of (double_of n - 1000000000))"

text \<open>
  \<^verbatim>\<open>normalize\<close> (lines 80-93): the first loop, which goes on into the second. The
  comparison \<^verbatim>\<open>ts->tv_nsec < 0\<close> is one of integers, \<^verbatim>\<open>ts->tv_nsec >= 1e9\<close> one of
  \<^verbatim>\<open>double\<close>s. Both loops end: a step moves the nanoseconds by \<open>10^9\<close> up to a rounding
  error of at most 1024 on each of its two conversions.
\<close>

function normalize_neg_long :: "timespec \<Rightarrow> timespec option"
  and normalize_pos_long :: "timespec \<Rightarrow> timespec option" where
  "normalize_neg_long ts =
     (if tv_nsec ts < 0
      then (case long_plus_1e9 (tv_nsec ts) of
              None \<Rightarrow> None
            | Some n \<Rightarrow>
                (case long_of (tv_sec ts - 1) of
                   None \<Rightarrow> None
                 | Some s \<Rightarrow> normalize_neg_long \<lparr>tv_sec = s, tv_nsec = n\<rparr>))
      else normalize_pos_long ts)"
| "normalize_pos_long ts =
     (if double_of (tv_nsec ts) \<ge> 1000000000
      then (case long_minus_1e9 (tv_nsec ts) of
              None \<Rightarrow> None
            | Some n \<Rightarrow>
                (case long_of (tv_sec ts + 1) of
                   None \<Rightarrow> None
                 | Some s \<Rightarrow> normalize_pos_long \<lparr>tv_sec = s, tv_nsec = n\<rparr>))
      else Some ts)"
  by pat_completeness auto
termination
proof (relation "inv_image (less_than <*lex*> less_than)
    (\<lambda>x. case x of Inl ts \<Rightarrow> (Suc 0, nat (- tv_nsec ts)) | Inr ts \<Rightarrow> (0, nat (tv_nsec ts)))")
  have ulp: "ulp_exp m \<le> j" if "m < 9007199254740992 * 2 ^ j" for m j
    using that
  proof (induction j arbitrary: m)
    case 0
    then show ?case by (simp add: ulp_exp.simps)
  next
    case (Suc j)
    show ?case
    proof (cases "m < 9007199254740992")
      case True
      then show ?thesis by (simp add: ulp_exp.simps)
    next
      case False
      from Suc.prems have "m div 2 < 9007199254740992 * 2 ^ j" by simp
      from Suc.IH [OF this] False show ?thesis
        by (subst ulp_exp.simps) simp
    qed
  qed
  have near_nat: "2 * \<bar>int (round_magnitude m) - int m\<bar> \<le> 2 ^ ulp_exp m" for m
  proof -
    define u :: nat where "u = 2 ^ ulp_exp m"
    define q where "q = m div u"
    define r where "r = m mod u"
    define c where "c = (2 * r > u \<or> (2 * r = u \<and> odd q))"
    have m: "m = q * u + r" by (simp add: q_def r_def)
    have r: "r < u" by (simp add: r_def u_def)
    have iu: "(2::int) ^ ulp_exp m = int u" by (simp add: u_def)
    have e: "round_magnitude m = (if c then q + 1 else q) * u"
      by (simp add: round_magnitude_def Let_def u_def q_def r_def c_def)
    show ?thesis
    proof (cases c)
      case True
      then have "u \<le> 2 * r" by (auto simp: c_def)
      with r True show ?thesis
        unfolding e iu by (simp add: m algebra_simps)
    next
      case False
      then have "2 * r \<le> u" by (auto simp: c_def)
      with r False show ?thesis
        unfolding e iu by (simp add: m algebra_simps)
    qed
  qed
  have near: "x - 1024 \<le> double_of x \<and> double_of x \<le> x + 1024"
    if "- 18446744073709551616 < x" and "x < 18446744073709551616" for x
  proof -
    define m where "m = nat \<bar>x\<bar>"
    define d where "d = int (round_magnitude m) - int m"
    have "m < 9007199254740992 * 2 ^ 11" using that by (simp add: m_def)
    then have "ulp_exp m \<le> 11" by (rule ulp)
    then have "(2::int) ^ ulp_exp m \<le> 2 ^ 11"
      by (intro power_increasing) simp_all
    then have "(2::int) ^ ulp_exp m \<le> 2048"
      by simp
    with near_nat [of m] have "2 * \<bar>d\<bar> \<le> 2048"
      unfolding d_def by (rule order_trans)
    then have "\<bar>d\<bar> \<le> 1024"
      by simp
    then have e: "- 1024 \<le> d \<and> d \<le> 1024"
      by (simp add: abs_le_iff)
    have dx: "double_of x = sgn x * (int m + d)"
      by (simp add: double_of_def m_def d_def)
    have im: "int m = \<bar>x\<bar>"
      by (simp add: m_def)
    show ?thesis
    proof (cases "x < 0")
      case True
      then have "double_of x = x - d"
        by (simp add: dx im)
      with e show ?thesis by simp
    next
      case False
      show ?thesis
      proof (cases "x = 0")
        case True
        then show ?thesis by (simp add: double_of_def)
      next
        case False
        with \<open>\<not> x < 0\<close> have "double_of x = x + d"
          by (simp add: dx im)
        with e show ?thesis by simp
      qed
    qed
  qed
  have up: "x < n" if "x < 0" and "long_plus_1e9 x = Some n" for x n
  proof (cases "x < - 9223372036854775808")
    case True
    from that(2) have "is_long n"
      by (auto simp: long_plus_1e9_def long_of_def split: if_splits)
    with True show ?thesis by (simp add: is_long_def)
  next
    case False
    define y where "y = double_of x"
    define z where "z = double_of (y + 1000000000)"
    from False that(1) have "- 18446744073709551616 < x" "x < 18446744073709551616"
      by simp_all
    from near [OF this] have a: "x - 1024 \<le> y" "y \<le> x + 1024"
      by (simp_all add: y_def)
    with False that(1) have "- 18446744073709551616 < y + 1000000000"
      "y + 1000000000 < 18446744073709551616"
      by simp_all
    from near [OF this] have b: "y + 1000000000 - 1024 \<le> z"
      by (simp add: z_def)
    from that(2) have "n = z"
      by (auto simp: long_plus_1e9_def long_of_def y_def z_def split: if_splits)
    with a b show ?thesis by simp
  qed
  have down: "n < x \<and> 0 < x"
    if "1000000000 \<le> double_of x" and "long_minus_1e9 x = Some n" for x n
  proof -
    from that(1) have "0 < double_of x" by simp
    then have p: "0 < x"
      by (simp add: double_of_def sgn_if zero_less_mult_iff split: if_splits)
    show ?thesis
    proof (cases "9223372036854775808 \<le> x")
      case True
      from that(2) have "is_long n"
        by (auto simp: long_minus_1e9_def long_of_def split: if_splits)
      with True p show ?thesis by (simp add: is_long_def)
    next
      case False
      define y where "y = double_of x"
      define z where "z = double_of (y - 1000000000)"
      from False p have "- 18446744073709551616 < x" "x < 18446744073709551616"
        by simp_all
      from near [OF this] have a: "x - 1024 \<le> y" "y \<le> x + 1024"
        by (simp_all add: y_def)
      with False p have "- 18446744073709551616 < y - 1000000000"
        "y - 1000000000 < 18446744073709551616"
        by simp_all
      from near [OF this] have b: "z \<le> y - 1000000000 + 1024"
        by (simp add: z_def)
      from that(2) have "n = z"
        by (auto simp: long_minus_1e9_def long_of_def y_def z_def split: if_splits)
      with a b p show ?thesis by simp
    qed
  qed
  {
    fix ts :: timespec and n s
    assume "tv_nsec ts < 0" and "long_plus_1e9 (tv_nsec ts) = Some n"
    then have "tv_nsec ts < n" by (rule up)
    with \<open>tv_nsec ts < 0\<close>
    show "(Inl \<lparr>tv_sec = s, tv_nsec = n\<rparr>, Inl ts) \<in> inv_image (less_than <*lex*> less_than)
        (\<lambda>x. case x of Inl ts \<Rightarrow> (Suc 0, nat (- tv_nsec ts)) | Inr ts \<Rightarrow> (0, nat (tv_nsec ts)))"
      by simp
  next
    fix ts :: timespec
    show "(Inr ts, Inl ts) \<in> inv_image (less_than <*lex*> less_than)
        (\<lambda>x. case x of Inl ts \<Rightarrow> (Suc 0, nat (- tv_nsec ts)) | Inr ts \<Rightarrow> (0, nat (tv_nsec ts)))"
      by simp
  next
    fix ts :: timespec and n s
    assume "1000000000 \<le> double_of (tv_nsec ts)" and "long_minus_1e9 (tv_nsec ts) = Some n"
    then have "n < tv_nsec ts \<and> 0 < tv_nsec ts" by (rule down)
    then show "(Inr \<lparr>tv_sec = s, tv_nsec = n\<rparr>, Inr ts) \<in> inv_image (less_than <*lex*> less_than)
        (\<lambda>x. case x of Inl ts \<Rightarrow> (Suc 0, nat (- tv_nsec ts)) | Inr ts \<Rightarrow> (0, nat (tv_nsec ts)))"
      by simp
  }
qed (auto intro!: wf_inv_image)

declare normalize_neg_long.simps [simp del]
declare normalize_pos_long.simps [simp del]

definition normalize_long :: "timespec \<Rightarrow> timespec option" where
  "normalize_long ts = normalize_neg_long ts"

text \<open>
  \<^verbatim>\<open>operator+\<close> and \<^verbatim>\<open>operator-\<close> add and subtract \<^verbatim>\<open>long\<close>s, where an overflow is
  undefined. \<^verbatim>\<open>operator*\<close> and \<^verbatim>\<open>timespec_from_millis\<close> multiply with a \<^verbatim>\<open>size_t\<close>: the
  product is unsigned, taken modulo \<open>2^64\<close>, and is then converted to the \<^verbatim>\<open>long\<close> field.
\<close>

definition plus_long :: "timespec \<Rightarrow> timespec \<Rightarrow> timespec option" where
  "plus_long a b =
     (case long_of (tv_sec a + tv_sec b) of
        None \<Rightarrow> None
      | Some s \<Rightarrow>
          (case long_of (tv_nsec a + tv_nsec b) of
             None \<Rightarrow> None
           | Some n \<Rightarrow> normalize_long \<lparr>tv_sec = s, tv_nsec = n\<rparr>))"

definition minus_long :: "timespec \<Rightarrow> timespec \<Rightarrow> timespec option" where
  "minus_long a b =
     (case long_of (tv_sec a - tv_sec b) of
        None \<Rightarrow> None
      | Some s \<Rightarrow>
          (case long_of (tv_nsec a - tv_nsec b) of
             None \<Rightarrow> None
           | Some n \<Rightarrow> normalize_long \<lparr>tv_sec = s, tv_nsec = n\<rparr>))"

definition times_long :: "timespec \<Rightarrow> nat \<Rightarrow> timespec option" where
  "times_long ts mul =
     normalize_long \<lparr>tv_sec = wrap_long (tv_sec ts * int mul),
                     tv_nsec = wrap_long (tv_nsec ts * int mul)\<rparr>"

definition from_millis_long :: "nat \<Rightarrow> timespec option" where
  "from_millis_long millis =
     normalize_long \<lparr>tv_sec = 0, tv_nsec = wrap_long (int (millis * 1000000))\<rparr>"

section \<open>The operating system as the source sees it\<close>

text \<open>
  The values of \<^verbatim>\<open>errno\<close> the source tests for, and any other code.
\<close>

datatype errno = EINTR | ENFILE | EMFILE | errno_other int

text \<open>
  The exceptions of the source. \<^verbatim>\<open>THROW (IOException, x)\<close> builds an
  \<^verbatim>\<open>IOException\<close> from a message or from an error number. A division by zero
  (line 373, in the Linux custom baud path) ends the process and is the last constructor.
\<close>

datatype exn =
  invalid_argument string
| SerialException string
| PortNotOpenedException string
| IOException_msg string
| IOException_errno errno
| division_by_zero

type_synonym tcflag_t = "32 word"
type_synonym speed_t = "32 word"

text \<open>
  \<^verbatim>\<open>struct termios\<close>: the four flag words, the control characters and the two line
  speeds.
\<close>

record termios =
  c_iflag :: tcflag_t
  c_oflag :: tcflag_t
  c_cflag :: tcflag_t
  c_lflag :: tcflag_t
  c_cc :: "nat \<Rightarrow> 8 word"
  c_ispeed :: speed_t
  c_ospeed :: speed_t

text \<open>\<^verbatim>\<open>struct serial_struct\<close> of \<^verbatim>\<open>linux/serial.h\<close>: the fields the source touches.\<close>

record serial_struct =
  custom_divisor :: int
  baud_base :: int
  flags :: "32 word"

text \<open>
  The source selects code with the preprocessor. The macros it reads come from the
  system headers, so they are a parameter of the model: the flag masks of
  \<^verbatim>\<open>termios.h\<close> (an optional one is \<open>None\<close> where the platform does not define it),
  the speed macros \<^verbatim>\<open>B0\<close>, \<^verbatim>\<open>B50\<close>, ... as a partial table, and which of the
  three custom baud rate paths is compiled. The functions of the C library that store
  a speed in a \<^verbatim>\<open>struct termios\<close> are a parameter too: \<^verbatim>\<open>cfsetispeed\<close> and
  \<^verbatim>\<open>cfsetospeed\<close>, and \<^verbatim>\<open>cfsetspeed\<close> where \<^verbatim>\<open>_BSD_SOURCE\<close> is defined (\<open>None\<close>
  where it is not). The source ignores what they return, so each is the change it makes
  to the structure.
\<close>

datatype custom_baud_path = IOSSIOSPEED_path | TIOCSSERIAL_path | unsupported_path

record platform =
  CLOCAL :: tcflag_t
  CREAD :: tcflag_t
  ICANON :: tcflag_t
  ECHO :: tcflag_t
  ECHOE :: tcflag_t
  ECHOK :: tcflag_t
  ECHONL :: tcflag_t
  ISIG :: tcflag_t
  IEXTEN :: tcflag_t
  OPOST :: tcflag_t
  INLCR :: tcflag_t
  IGNCR :: tcflag_t
  ICRNL :: tcflag_t
  IGNBRK :: tcflag_t
  IUCLC :: "tcflag_t option"
  PARMRK :: "tcflag_t option"
  CSIZE :: tcflag_t
  CS8 :: tcflag_t
  CS7 :: tcflag_t
  CS6 :: tcflag_t
  CS5 :: tcflag_t
  CSTOPB :: tcflag_t
  INPCK :: tcflag_t
  ISTRIP :: tcflag_t
  PARENB :: tcflag_t
  PARODD :: tcflag_t
  IXON :: tcflag_t
  IXOFF :: tcflag_t
  IXANY :: "tcflag_t option"
  CRTSCTS :: tcflag_t
  VMIN :: nat
  VTIME :: nat
  ASYNC_SPD_MASK :: "32 word"
  ASYNC_SPD_CUST :: "32 word"
  speed_macro :: "nat \<Rightarrow> speed_t option"
  custom_baud :: custom_baud_path
  cfsetspeed :: "(speed_t \<Rightarrow> termios \<Rightarrow> termios) option"
  cfsetispeed :: "speed_t \<Rightarrow> termios \<Rightarrow> termios"
  cfsetospeed :: "speed_t \<Rightarrow> termios \<Rightarrow> termios"

datatype direction = for_reading | for_writing

text \<open>
  The system calls of the source, over a state \<open>'w\<close> of the world outside the process.
  A call that can fail returns its result and the \<^verbatim>\<open>errno\<close> it leaves.
  \<^item> \<open>clock_gettime\<close>: the clock read by \<^verbatim>\<open>timespec_now\<close>;
  \<^item> \<open>sys_open\<close>: \<^verbatim>\<open>::open (port, O_RDWR | O_NOCTTY | O_NONBLOCK)\<close>, a descriptor or -1;
  \<^item> \<open>sys_close\<close>: \<^verbatim>\<open>::close (fd)\<close>, whose outcome the source ignores;
  \<^item> \<open>tcgetattr\<close>, \<open>tcsetattr\<close> (with \<^verbatim>\<open>TCSANOW\<close>; its outcome is ignored);
  \<^item> the three \<^verbatim>\<open>ioctl\<close> requests of the custom baud rate paths and \<^verbatim>\<open>TIOCINQ\<close>,
    which gives a result and a count;
  \<^item> \<open>sys_read\<close>, \<open>sys_write\<close>: \<^verbatim>\<open>::read\<close> and \<^verbatim>\<open>::write\<close> on a descriptor for a
    number of bytes, giving the \<^verbatim>\<open>ssize_t\<close> they return (the bytes themselves are not
    modelled: the source only counts them);
  \<^item> \<open>pselect\<close>: the wait for one descriptor in one direction with a timeout, giving
    \<^verbatim>\<open>r\<close>, \<^verbatim>\<open>errno\<close> and whether the descriptor is still in the set (\<^verbatim>\<open>FD_ISSET\<close>).
\<close>

record 'w os =
  clock_gettime :: "'w \<Rightarrow> timespec \<times> 'w"
  sys_open :: "string \<Rightarrow> 'w \<Rightarrow> (int \<times> errno) \<times> 'w"
  sys_close :: "int \<Rightarrow> 'w \<Rightarrow> 'w"
  tcgetattr :: "int \<Rightarrow> 'w \<Rightarrow> (int \<times> termios) \<times> 'w"
  tcsetattr :: "int \<Rightarrow> termios \<Rightarrow> 'w \<Rightarrow> 'w"
  ioctl_IOSSIOSPEED :: "int \<Rightarrow> speed_t \<Rightarrow> 'w \<Rightarrow> (int \<times> errno) \<times> 'w"
  ioctl_TIOCGSERIAL :: "int \<Rightarrow> 'w \<Rightarrow> serial_struct \<times> 'w"
  ioctl_TIOCSSERIAL :: "int \<Rightarrow> serial_struct \<Rightarrow> 'w \<Rightarrow> (int \<times> errno) \<times> 'w"
  ioctl_TIOCINQ :: "int \<Rightarrow> 'w \<Rightarrow> (int \<times> int \<times> errno) \<times> 'w"
  sys_read :: "int \<Rightarrow> nat \<Rightarrow> 'w \<Rightarrow> int \<times> 'w"
  sys_write :: "int \<Rightarrow> nat \<Rightarrow> 'w \<Rightarrow> int \<times> 'w"
  pselect :: "direction \<Rightarrow> int \<Rightarrow> timespec \<Rightarrow> 'w \<Rightarrow> (int \<times> errno \<times> bool) \<times> 'w"

definition timespec_now :: "'w os \<Rightarrow> 'w \<Rightarrow> timespec \<times> 'w" where
  "timespec_now os w = clock_gettime os w"

section \<open>Port configuration: \<^verbatim>\<open>reconfigurePort\<close> (lines 216-477)\<close>

text \<open>Raw mode, no echo, binary (lines 230-242).\<close>

definition clear_opt :: "tcflag_t option \<Rightarrow> tcflag_t \<Rightarrow> tcflag_t" where
  "clear_opt m f = (case m of None \<Rightarrow> f | Some b \<Rightarrow> f AND NOT b)"

definition raw_mode :: "platform \<Rightarrow> termios \<Rightarrow> termios" where
  "raw_mode pf options =
     (let options = options\<lparr>c_cflag := c_cflag options OR (CLOCAL pf OR CREAD pf)\<rparr>;
          options = options\<lparr>c_lflag := c_lflag options AND
                       NOT (ICANON pf OR ECHO pf OR ECHOE pf OR ECHOK pf OR ECHONL pf OR
                            ISIG pf OR IEXTEN pf)\<rparr>;
          options = options\<lparr>c_oflag := c_oflag options AND NOT (OPOST pf)\<rparr>;
          options = options\<lparr>c_iflag := c_iflag options AND
                       NOT (INLCR pf OR IGNCR pf OR ICRNL pf OR IGNBRK pf)\<rparr>;
          options = options\<lparr>c_iflag := clear_opt (IUCLC pf) (c_iflag options)\<rparr>;
          options = options\<lparr>c_iflag := clear_opt (PARMRK pf) (c_iflag options)\<rparr>
      in options)"

text \<open>
  The \<^verbatim>\<open>switch (baudrate_)\<close> of lines 247-384: a rate among the \<^verbatim>\<open>case\<close> labels whose
  macro the platform defines is a standard rate; every other rate takes the
  \<^verbatim>\<open>default\<close> branch.
\<close>

definition baud_cases :: "nat list" where
  "baud_cases = [0, 50, 75, 110, 134, 150, 200, 300, 600, 1200, 1800, 2400, 4800, 7200,
     9600, 14400, 19200, 28800, 57600, 76800, 38400, 115200, 128000, 153600, 230400,
     256000, 460800, 921600, 1000000, 1152000, 1500000, 2000000, 2500000, 3000000,
     3500000, 4000000]"

definition standard_baud :: "platform \<Rightarrow> nat \<Rightarrow> speed_t option" where
  "standard_baud pf b = (if b \<in> set baud_cases then speed_macro pf b else None)"

text \<open>C's division of two \<^verbatim>\<open>int\<close>s truncates towards zero.\<close>

definition c_div :: "int \<Rightarrow> int \<Rightarrow> int" where
  "c_div a b = sgn a * sgn b * (\<bar>a\<bar> div \<bar>b\<bar>)"

text \<open>
  The \<^verbatim>\<open>default\<close> branch (lines 356-384): the custom rate is handed to the driver.
  \<^verbatim>\<open>(int) baudrate_\<close> keeps the low 32 bits as a signed number.
\<close>

definition set_custom_baud ::
  "platform \<Rightarrow> 'w os \<Rightarrow> int \<Rightarrow> nat \<Rightarrow> 'w \<Rightarrow> (exn + unit) \<times> 'w" where
  "set_custom_baud pf os fd baudrate w =
     (case custom_baud pf of
        IOSSIOSPEED_path \<Rightarrow>
          (let new_baud = (word_of_nat baudrate :: speed_t);
               ((r, err), w1) = ioctl_IOSSIOSPEED os fd new_baud w
           in if r < 0 then (Inl (IOException_errno err), w1) else (Inr (), w1))
      | TIOCSSERIAL_path \<Rightarrow>
          (let (ser, w1) = ioctl_TIOCGSERIAL os fd w;
               d = sint (word_of_nat baudrate :: 32 word)
           in if d = 0 then (Inl division_by_zero, w1)
              else
                (let ser = ser\<lparr>custom_divisor := c_div (baud_base ser) d\<rparr>;
                     ser = ser\<lparr>flags := flags ser AND NOT (ASYNC_SPD_MASK pf)\<rparr>;
                     ser = ser\<lparr>flags := flags ser OR ASYNC_SPD_CUST pf\<rparr>;
                     ((r, err), w2) = ioctl_TIOCSSERIAL os fd ser w1
                 in if r < 0 then (Inl (IOException_errno err), w2) else (Inr (), w2)))
      | unsupported_path \<Rightarrow>
          (Inl (invalid_argument ''OS does not currently support custom bauds''), w))"

text \<open>Character length, stop bits and parity (lines 394-427).\<close>

definition set_bytesize :: "platform \<Rightarrow> bytesize_t \<Rightarrow> termios \<Rightarrow> exn + termios" where
  "set_bytesize pf bytesize options =
     (let options = options\<lparr>c_cflag := c_cflag options AND NOT (CSIZE pf)\<rparr>
      in if bytesize = eightbits then Inr (options\<lparr>c_cflag := c_cflag options OR CS8 pf\<rparr>)
         else if bytesize = sevenbits then Inr (options\<lparr>c_cflag := c_cflag options OR CS7 pf\<rparr>)
         else if bytesize = sixbits then Inr (options\<lparr>c_cflag := c_cflag options OR CS6 pf\<rparr>)
         else if bytesize = fivebits then Inr (options\<lparr>c_cflag := c_cflag options OR CS5 pf\<rparr>)
         else Inl (invalid_argument ''invalid char len''))"

definition set_stopbits :: "platform \<Rightarrow> stopbits_t \<Rightarrow> termios \<Rightarrow> exn + termios" where
  "set_stopbits pf stopbits options =
     (if stopbits = stopbits_one
      then Inr (options\<lparr>c_cflag := c_cflag options AND NOT (CSTOPB pf)\<rparr>)
      else if stopbits = stopbits_one_point_five
      then Inr (options\<lparr>c_cflag := c_cflag options OR CSTOPB pf\<rparr>)
      else if stopbits = stopbits_two
      then Inr (options\<lparr>c_cflag := c_cflag options OR CSTOPB pf\<rparr>)
      else Inl (invalid_argument ''invalid stop bit''))"

definition set_parity :: "platform \<Rightarrow> parity_t \<Rightarrow> termios \<Rightarrow> exn + termios" where
  "set_parity pf parity options =
     (let options = options\<lparr>c_iflag := c_iflag options AND NOT (INPCK pf OR ISTRIP pf)\<rparr>
      in if parity = parity_none
         then Inr (options\<lparr>c_cflag := c_cflag options AND NOT (PARENB pf OR PARODD pf)\<rparr>)
         else if parity = parity_even
         then Inr (options\<lparr>c_cflag := (c_cflag options AND NOT (PARODD pf)) OR PARENB pf\<rparr>)
         else if parity = parity_odd
         then Inr (options\<lparr>c_cflag := c_cflag options OR (PARENB pf OR PARODD pf)\<rparr>)
         else Inl (invalid_argument ''invalid parity''))"

text \<open>
  Flow control (lines 428-440): three independent \<^verbatim>\<open>if\<close>s on \<^verbatim>\<open>flowcontrol_\<close>, each
  assigning both booleans; any other value of the enumeration leaves them as they are.
\<close>

definition set_flowcontrol :: "SerialImpl \<Rightarrow> SerialImpl" where
  "set_flowcontrol s =
     (let s = (if flowcontrol_' s = flowcontrol_none
               then s\<lparr>xonxoff_' := False, rtscts_' := False\<rparr> else s);
          s = (if flowcontrol_' s = flowcontrol_software
               then s\<lparr>xonxoff_' := True, rtscts_' := False\<rparr> else s);
          s = (if flowcontrol_' s = flowcontrol_hardware
               then s\<lparr>xonxoff_' := False, rtscts_' := True\<rparr> else s)
      in s)"

text \<open>The flag bits of the two booleans and the polling read (lines 441-473).\<close>

definition flow_flags :: "platform \<Rightarrow> SerialImpl \<Rightarrow> termios \<Rightarrow> termios" where
  "flow_flags pf s options =
     (let options =
            (if xonxoff_' s
             then options\<lparr>c_iflag := c_iflag options OR (IXON pf OR IXOFF pf)\<rparr>
             else options\<lparr>c_iflag := clear_opt (IXANY pf)
                                        (c_iflag options AND NOT (IXON pf OR IXOFF pf))\<rparr>);
          options =
            (if rtscts_' s
             then options\<lparr>c_cflag := c_cflag options OR CRTSCTS pf\<rparr>
             else options\<lparr>c_cflag := c_cflag options AND NOT (CRTSCTS pf)\<rparr>);
          options = options\<lparr>c_cc := (c_cc options)(VMIN pf := 0)\<rparr>;
          options = options\<lparr>c_cc := (c_cc options)(VTIME pf := 0)\<rparr>
      in options)"

text \<open>
  Lines 385-392: a standard rate is stored with \<^verbatim>\<open>cfsetspeed\<close> under \<^verbatim>\<open>_BSD_SOURCE\<close>,
  and with \<^verbatim>\<open>cfsetispeed\<close> followed by \<^verbatim>\<open>cfsetospeed\<close> otherwise.
\<close>

definition set_standard_baud :: "platform \<Rightarrow> speed_t \<Rightarrow> termios \<Rightarrow> termios" where
  "set_standard_baud pf baud options =
     (case cfsetspeed pf of
        Some f \<Rightarrow> f baud options
      | None \<Rightarrow> cfsetospeed pf baud (cfsetispeed pf baud options))"

definition reconfigurePort ::
  "platform \<Rightarrow> 'w os \<Rightarrow> SerialImpl \<Rightarrow> 'w \<Rightarrow> (exn + unit) \<times> SerialImpl \<times> 'w" where
  "reconfigurePort pf os s w =
     (if fd_' s = -1
      then (Inl (IOException_msg ''Invalid file descriptor, is the serial port open?''), s, w)
      else
        (let ((r, options), w1) = tcgetattr os (fd_' s) w
         in if r = -1 then (Inl (IOException_msg ''::tcgetattr''), s, w1)
            else
              (let options = raw_mode pf options;
                   (baud, w2) =
                     (case standard_baud pf (baudrate_' s) of
                        Some b \<Rightarrow> (Inr (Some b), w1)
                      | None \<Rightarrow>
                          (case set_custom_baud pf os (fd_' s) (baudrate_' s) w1 of
                             (Inl e, w') \<Rightarrow> (Inl e, w')
                           | (Inr u, w') \<Rightarrow> (Inr None, w')))
               in case baud of
                    Inl e \<Rightarrow> (Inl e, s, w2)
                  | Inr standard \<Rightarrow>
                      (let options =
                             (case standard of
                                Some b \<Rightarrow> set_standard_baud pf b options
                              | None \<Rightarrow> options)
                       in case set_bytesize pf (bytesize_' s) options of
                            Inl e \<Rightarrow> (Inl e, s, w2)
                          | Inr options \<Rightarrow>
                       (case set_stopbits pf (stopbits_' s) options of
                            Inl e \<Rightarrow> (Inl e, s, w2)
                          | Inr options \<Rightarrow>
                       (case set_parity pf (parity_' s) options of
                            Inl e \<Rightarrow> (Inl e, s, w2)
                          | Inr options \<Rightarrow>
                              (let s = set_flowcontrol s;
                                   options = flow_flags pf s options
                               in (Inr (), s, tcsetattr os (fd_' s) options w2))))))))"

section \<open>Opening and closing (lines 163-214 and 479-495)\<close>

text \<open>
  \<^verbatim>\<open>open\<close> calls itself again when \<^verbatim>\<open>::open\<close> fails with \<^verbatim>\<open>EINTR\<close>, which can go on
  for ever. The first argument bounds the number of calls of \<^verbatim>\<open>::open\<close>; the result is
  \<open>None\<close> when that bound is used up before \<^verbatim>\<open>open\<close> returns or throws.
\<close>

fun open_impl ::
  "nat \<Rightarrow> platform \<Rightarrow> 'w os \<Rightarrow> SerialImpl \<Rightarrow> 'w \<Rightarrow> (exn + unit) option \<times> SerialImpl \<times> 'w" where
  "open_impl n pf os s w =
     (if port_' s = [] then (Some (Inl (invalid_argument ''Empty port is invalid.'')), s, w)
      else if is_open_' s = True
      then (Some (Inl (SerialException ''Serial port already open.'')), s, w)
      else
        (case n of
           0 \<Rightarrow> (None, s, w)
         | Suc k \<Rightarrow>
             (let ((fd, err), w1) = sys_open os (port_' s) w;
                  s = s\<lparr>fd_' := fd\<rparr>
              in if fd = -1
                 then (case err of
                         EINTR \<Rightarrow> open_impl k pf os s w1
                       | ENFILE \<Rightarrow>
                           (Some (Inl (IOException_msg ''Too many file handles open.'')), s, w1)
                       | EMFILE \<Rightarrow>
                           (Some (Inl (IOException_msg ''Too many file handles open.'')), s, w1)
                       | errno_other c \<Rightarrow> (Some (Inl (IOException_errno err)), s, w1))
                 else (case reconfigurePort pf os s w1 of
                         (Inl e, s, w2) \<Rightarrow> (Some (Inl e), s, w2)
                       | (Inr u, s, w2) \<Rightarrow> (Some (Inr ()), s\<lparr>is_open_' := True\<rparr>, w2)))))"

declare open_impl.simps [simp del]

text \<open>
  Modelled from the spec: the default constructor of \<^verbatim>\<open>serial::Timeout\<close>, which is in
  the header. The source names its result \<^verbatim>\<open>zero_timeout\<close>; the specification calls it
  the all-zero profile.
\<close>

definition zero_timeout :: Timeout where
  "zero_timeout = \<lparr>inter_byte_timeout = 0, read_timeout_constant = 0,
     read_timeout_multiplier = 0, write_timeout_constant = 0, write_timeout_multiplier = 0\<rparr>"

text \<open>
  The constructor (lines 163-177): the member initializers and \<^verbatim>\<open>setTimeout\<close>, then
  \<^verbatim>\<open>open\<close> unless the port is empty. The cached timespecs have no initializer and are
  first written by \<^verbatim>\<open>setTimeout\<close>. An exception of \<^verbatim>\<open>open\<close> leaves the constructor, and
  no handle exists then.
\<close>

definition initial_members ::
  "string \<Rightarrow> nat \<Rightarrow> bytesize_t \<Rightarrow> parity_t \<Rightarrow> stopbits_t \<Rightarrow> flowcontrol_t \<Rightarrow> SerialImpl" where
  "initial_members port baudrate bytesize parity stopbits flowcontrol =
     setTimeout zero_timeout
       \<lparr>port_' = port, fd_' = -1, is_open_' = False, xonxoff_' = False, rtscts_' = False,
        timeout_' = zero_timeout, baudrate_' = baudrate, parity_' = parity,
        bytesize_' = bytesize, stopbits_' = stopbits, flowcontrol_' = flowcontrol,
        inter_byte_timeout_' = \<lparr>tv_sec = 0, tv_nsec = 0\<rparr>,
        read_timeout_constant_' = \<lparr>tv_sec = 0, tv_nsec = 0\<rparr>,
        read_timeout_multiplier_' = \<lparr>tv_sec = 0, tv_nsec = 0\<rparr>,
        write_timeout_constant_' = \<lparr>tv_sec = 0, tv_nsec = 0\<rparr>,
        write_timeout_multiplier_' = \<lparr>tv_sec = 0, tv_nsec = 0\<rparr>\<rparr>"

definition SerialImpl_new ::
  "nat \<Rightarrow> platform \<Rightarrow> 'w os \<Rightarrow> string \<Rightarrow> nat \<Rightarrow> bytesize_t \<Rightarrow> parity_t \<Rightarrow> stopbits_t \<Rightarrow>
   flowcontrol_t \<Rightarrow> 'w \<Rightarrow> (exn + SerialImpl) option \<times> 'w" where
  "SerialImpl_new n pf os port baudrate bytesize parity stopbits flowcontrol w =
     (let s = initial_members port baudrate bytesize parity stopbits flowcontrol
      in if port_' s \<noteq> []
         then (case open_impl n pf os s w of
                 (None, s, w1) \<Rightarrow> (None, w1)
               | (Some (Inl e), s, w1) \<Rightarrow> (Some (Inl e), w1)
               | (Some (Inr u), s, w1) \<Rightarrow> (Some (Inr s), w1))
         else (Some (Inr s), w))"

definition close :: "'w os \<Rightarrow> SerialImpl \<Rightarrow> 'w \<Rightarrow> SerialImpl \<times> 'w" where
  "close os s w =
     (if is_open_' s = True
      then (let (s, w) = (if fd_' s \<noteq> -1
                          then (s\<lparr>fd_' := -1\<rparr>, sys_close os (fd_' s) w)
                          else (s, w))
            in (s\<lparr>is_open_' := False\<rparr>, w))
      else (s, w))"

definition isOpen :: "SerialImpl \<Rightarrow> bool" where
  "isOpen s = is_open_' s"

section \<open>The transfer engine: \<^verbatim>\<open>available\<close>, \<^verbatim>\<open>read\<close> and \<^verbatim>\<open>write\<close> (lines 497-684)\<close>

text \<open>
  \<^verbatim>\<open>available\<close>: \<^verbatim>\<open>static_cast<size_t> (count)\<close> of an \<^verbatim>\<open>int\<close> wraps a negative
  count around to a 64-bit sz.
\<close>

definition available :: "'w os \<Rightarrow> SerialImpl \<Rightarrow> 'w \<Rightarrow> (exn + nat) \<times> 'w" where
  "available os s w =
     (if \<not> is_open_' s then (Inr 0, w)
      else
        (let ((result, count, err), w1) = ioctl_TIOCINQ os (fd_' s) w
         in if result = 0 then (Inr (nat (count mod 2 ^ 64)), w1)
            else (Inl (IOException_errno err), w1)))"

text \<open>
  The overall expiry point of a call (lines 522-523 and 617-618), from the reading of the
  clock and the cached timespecs of the handle.
\<close>

definition read_endtime :: "SerialImpl \<Rightarrow> timespec \<Rightarrow> nat \<Rightarrow> timespec" where
  "read_endtime s now sz =
     timespec_plus (timespec_plus now (read_timeout_constant_' s))
                   (timespec_times (read_timeout_multiplier_' s) sz)"

definition write_endtime :: "SerialImpl \<Rightarrow> timespec \<Rightarrow> nat \<Rightarrow> timespec" where
  "write_endtime s now len = 
     timespec_plus (timespec_plus now (write_timeout_constant_' s))
                   (timespec_times (write_timeout_multiplier_' s) len)"

text \<open>
  The loop \<^verbatim>\<open>while (bytes_read < size)\<close> of \<^verbatim>\<open>read\<close> (lines 539-604). An interrupted
  \<^verbatim>\<open>pselect\<close> is tried again, which can go on for ever: the first argument bounds the
  number of passes through the loop body, and the result is \<open>None\<close> when the bound is
  used up before the loop is left.
\<close>

fun read_loop ::
  "nat \<Rightarrow> 'w os \<Rightarrow> SerialImpl \<Rightarrow> timespec \<Rightarrow> nat \<Rightarrow> nat \<Rightarrow> 'w \<Rightarrow> (exn + nat) option \<times> 'w" where
  "read_loop n os s timeout_endtime sz bytes_read w =
     (if bytes_read < sz
      then
        (case n of
           0 \<Rightarrow> (None, w)
         | Suc k \<Rightarrow>
             (let (now, w1) = timespec_now os w;
                  timeout_remaining = timespec_minus timeout_endtime now;
                  timeout = timespec_min timeout_remaining (inter_byte_timeout_' s);
                  ((r, err, isset), w2) = pselect os for_reading (fd_' s) timeout w1
              in if r < 0
                 then (if err = EINTR
                       then read_loop k os s timeout_endtime sz bytes_read w2
                       else (Some (Inl (IOException_errno err)), w2))
                 else if r = 0 then (Some (Inr bytes_read), w2)
                 else if isset
                 then
                   (let (bytes_read_now, w3) = sys_read os (fd_' s) (sz - bytes_read) w2
                    in if bytes_read_now < 1
                       then (Some (Inl (SerialException
                               ''device reports readiness to read but returned no data (device disconnected?)'')), w3)
                       else
                         (let bytes_read = bytes_read + nat bytes_read_now
                          in if bytes_read = sz then (Some (Inr bytes_read), w3)
                             else if bytes_read < sz
                             then read_loop k os s timeout_endtime sz bytes_read w3
                             else (Some (Inl (SerialException
                                     ''read over read, too many bytes where read, this shouldn't happen, might be a logical error!'')), w3)))
                 else (Some (Inl (IOException_msg
                         ''pselect reports ready to read, but our fd isn't in the list, this shouldn't happen!'')), w2)))
      else (Some (Inr bytes_read), w))"

declare read_loop.simps [simp del]

definition read ::
  "nat \<Rightarrow> 'w os \<Rightarrow> SerialImpl \<Rightarrow> nat \<Rightarrow> 'w \<Rightarrow> (exn + nat) option \<times> 'w" where
  "read n os s sz w =
     (if \<not> is_open_' s then (Some (Inl (PortNotOpenedException ''Serial::read'')), w)
      else
        (let (now, w1) = timespec_now os w;
             timeout_endtime = read_endtime s now sz
         in case available os s w1 of
              (Inl e, w2) \<Rightarrow> (Some (Inl e), w2)
            | (Inr a, w2) \<Rightarrow>
                if a > 0
                then
                  (let (bytes_read_now, w3) = sys_read os (fd_' s) sz w2
                   in if bytes_read_now < 1
                      then (Some (Inl (SerialException
                              ''device reports readiness to read but returned no data (device disconnected?)'')), w3)
                      else read_loop n os s timeout_endtime sz (0 + nat bytes_read_now) w3)
                else read_loop n os s timeout_endtime sz 0 w2))"

text \<open>The loop \<^verbatim>\<open>while (bytes_written < length)\<close> of \<^verbatim>\<open>write\<close> (lines 621-682).\<close>

fun write_loop ::
  "nat \<Rightarrow> 'w os \<Rightarrow> SerialImpl \<Rightarrow> timespec \<Rightarrow> nat \<Rightarrow> nat \<Rightarrow> 'w \<Rightarrow> (exn + nat) option \<times> 'w" where
  "write_loop n os s timeout_endtime len bytes_written w =
     (if bytes_written < len
      then
        (case n of
           0 \<Rightarrow> (None, w)
         | Suc k \<Rightarrow>
             (let (now, w1) = timespec_now os w;
                  timeout_remaining = timespec_minus timeout_endtime now;
                  ((r, err, isset), w2) = pselect os for_writing (fd_' s) timeout_remaining w1
              in if r < 0
                 then (if err = EINTR
                       then write_loop k os s timeout_endtime len bytes_written w2
                       else (Some (Inl (IOException_errno err)), w2))
                 else if r = 0 then (Some (Inr bytes_written), w2)
                 else if isset
                 then
                   (let (bytes_written_now, w3) =
                          sys_write os (fd_' s) (len - bytes_written) w2
                    in if bytes_written_now < 1
                       then (Some (Inl (SerialException
                               ''device reports readiness to write but returned no data (device disconnected?)'')), w3)
                       else
                         (let bytes_written = bytes_written + nat bytes_written_now
                          in if bytes_written = len then (Some (Inr bytes_written), w3)
                             else if bytes_written < len
                             then write_loop k os s timeout_endtime len bytes_written w3
                             else (Some (Inl (SerialException
                                     ''write over wrote, too many bytes where written, this shouldn't happen, might be a logical error!'')), w3)))
                 else (Some (Inl (IOException_msg
                         ''select reports ready to write, but our fd isn't in the list, this shouldn't happen!'')), w2)))
      else (Some (Inr bytes_written), w))"

declare write_loop.simps [simp del]

definition write_impl ::
  "nat \<Rightarrow> 'w os \<Rightarrow> SerialImpl \<Rightarrow> nat \<Rightarrow> 'w \<Rightarrow> (exn + nat) option \<times> 'w" where
  "write_impl n os s len w =
     (if is_open_' s = False then (Some (Inl (PortNotOpenedException ''Serial::write'')), w)
      else
        (let (now, w1) = timespec_now os w;
             timeout_endtime = write_endtime s now len
         in write_loop n os s timeout_endtime len 0 w1))"

section \<open>The setters (lines 686-786)\<close>

definition setPort :: "string \<Rightarrow> SerialImpl \<Rightarrow> SerialImpl" where
  "setPort port s = s\<lparr>port_' := port\<rparr>"

definition getPort :: "SerialImpl \<Rightarrow> string" where
  "getPort s = port_' s"

definition setBaudrate ::
  "platform \<Rightarrow> 'w os \<Rightarrow> nat \<Rightarrow> SerialImpl \<Rightarrow> 'w \<Rightarrow> (exn + unit) \<times> SerialImpl \<times> 'w" where
  "setBaudrate pf os baudrate s w =
     (let s = s\<lparr>baudrate_' := baudrate\<rparr>
      in if is_open_' s then reconfigurePort pf os s w else (Inr (), s, w))"

definition setBytesize ::
  "platform \<Rightarrow> 'w os \<Rightarrow> bytesize_t \<Rightarrow> SerialImpl \<Rightarrow> 'w \<Rightarrow> (exn + unit) \<times> SerialImpl \<times> 'w" where
  "setBytesize pf os bytesize s w =
     (let s = s\<lparr>bytesize_' := bytesize\<rparr>
      in if is_open_' s then reconfigurePort pf os s w else (Inr (), s, w))"

definition setParity ::
  "platform \<Rightarrow> 'w os \<Rightarrow> parity_t \<Rightarrow> SerialImpl \<Rightarrow> 'w \<Rightarrow> (exn + unit) \<times> SerialImpl \<times> 'w" where
  "setParity pf os parity s w =
     (let s = s\<lparr>parity_' := parity\<rparr>
      in if is_open_' s then reconfigurePort pf os s w else (Inr (), s, w))"

definition setStopbits ::
  "platform \<Rightarrow> 'w os \<Rightarrow> stopbits_t \<Rightarrow> SerialImpl \<Rightarrow> 'w \<Rightarrow> (exn + unit) \<times> SerialImpl \<times> 'w" where
  "setStopbits pf os stopbits s w =
     (let s = s\<lparr>stopbits_' := stopbits\<rparr>
      in if is_open_' s then reconfigurePort pf os s w else (Inr (), s, w))"

definition setFlowcontrol ::
  "platform \<Rightarrow> 'w os \<Rightarrow> flowcontrol_t \<Rightarrow> SerialImpl \<Rightarrow> 'w \<Rightarrow> (exn + unit) \<times> SerialImpl \<times> 'w" where
  "setFlowcontrol pf os flowcontrol s w =
     (let s = s\<lparr>flowcontrol_' := flowcontrol\<rparr>
      in if is_open_' s then reconfigurePort pf os s w else (Inr (), s, w))"

text \<open>
  One call on a handle, and a sequence of calls. A call that throws leaves the handle
  as the exception found it, and the next call goes on from there; a call that does not
  return within its bound ends the sequence with \<open>None\<close>.
\<close>

datatype call =
  Open nat
| Close
| ReconfigurePort
| SetPort string
| SetTimeout Timeout
| SetBaudrate nat
| SetBytesize bytesize_t
| SetParity parity_t
| SetStopbits stopbits_t
| SetFlowcontrol flowcontrol_t
| Read nat nat
| Write nat nat

fun do_call ::
  "platform \<Rightarrow> 'w os \<Rightarrow> call \<Rightarrow> SerialImpl \<Rightarrow> 'w \<Rightarrow> (exn + nat) option \<times> SerialImpl \<times> 'w" where
  "do_call pf os (Open n) s w =
     (case open_impl n pf os s w of (r, s1, w1) \<Rightarrow> (map_option (map_sum id (\<lambda>u. 0)) r, s1, w1))"
| "do_call pf os Close s w = (case close os s w of (s1, w1) \<Rightarrow> (Some (Inr 0), s1, w1))"
| "do_call pf os ReconfigurePort s w =
     (case reconfigurePort pf os s w of (r, s1, w1) \<Rightarrow> (Some (map_sum id (\<lambda>u. 0) r), s1, w1))"
| "do_call pf os (SetPort p) s w = (Some (Inr 0), setPort p s, w)"
| "do_call pf os (SetTimeout t) s w = (Some (Inr 0), setTimeout t s, w)"
| "do_call pf os (SetBaudrate b) s w =
     (case setBaudrate pf os b s w of (r, s1, w1) \<Rightarrow> (Some (map_sum id (\<lambda>u. 0) r), s1, w1))"
| "do_call pf os (SetBytesize b) s w =
     (case setBytesize pf os b s w of (r, s1, w1) \<Rightarrow> (Some (map_sum id (\<lambda>u. 0) r), s1, w1))"
| "do_call pf os (SetParity p) s w =
     (case setParity pf os p s w of (r, s1, w1) \<Rightarrow> (Some (map_sum id (\<lambda>u. 0) r), s1, w1))"
| "do_call pf os (SetStopbits b) s w =
     (case setStopbits pf os b s w of (r, s1, w1) \<Rightarrow> (Some (map_sum id (\<lambda>u. 0) r), s1, w1))"
| "do_call pf os (SetFlowcontrol f) s w =
     (case setFlowcontrol pf os f s w of (r, s1, w1) \<Rightarrow> (Some (map_sum id (\<lambda>u. 0) r), s1, w1))"
| "do_call pf os (Read n sz) s w = (case read n os s sz w of (r, w1) \<Rightarrow> (r, s, w1))"
| "do_call pf os (Write n len) s w = (case write_impl n os s len w of (r, w1) \<Rightarrow> (r, s, w1))"

fun do_calls ::
  "platform \<Rightarrow> 'w os \<Rightarrow> call list \<Rightarrow> SerialImpl \<Rightarrow> 'w \<Rightarrow> (SerialImpl \<times> 'w) option" where
  "do_calls pf os [] s w = Some (s, w)"
| "do_calls pf os (c # cs) s w =
     (case do_call pf os c s w of
        (None, s1, w1) \<Rightarrow> None
      | (Some r, s1, w1) \<Rightarrow> do_calls pf os cs s1 w1)"

section \<open>Observing the readiness waits\<close>

text \<open>
  \<open>logging os\<close> is the system \<open>os\<close> with a list beside its state: every call goes to
  \<open>os\<close> unchanged, and \<open>pselect\<close> also appends the timeout it was given to the list. The
  list after a call of the handle is the sequence of wait bounds the call has used.
\<close>

definition logging :: "'w os \<Rightarrow> ('w \<times> timespec list) os" where
  "logging os = \<lparr>
     clock_gettime = (\<lambda>(w, l). case clock_gettime os w of (t, w') \<Rightarrow> (t, (w', l))),
     sys_open = (\<lambda>p (w, l). case sys_open os p w of (r, w') \<Rightarrow> (r, (w', l))),
     sys_close = (\<lambda>fd (w, l). (sys_close os fd w, l)),
     tcgetattr = (\<lambda>fd (w, l). case tcgetattr os fd w of (r, w') \<Rightarrow> (r, (w', l))),
     tcsetattr = (\<lambda>fd t (w, l). (tcsetattr os fd t w, l)),
     ioctl_IOSSIOSPEED =
       (\<lambda>fd b (w, l). case ioctl_IOSSIOSPEED os fd b w of (r, w') \<Rightarrow> (r, (w', l))),
     ioctl_TIOCGSERIAL =
       (\<lambda>fd (w, l). case ioctl_TIOCGSERIAL os fd w of (r, w') \<Rightarrow> (r, (w', l))),
     ioctl_TIOCSSERIAL =
       (\<lambda>fd x (w, l). case ioctl_TIOCSSERIAL os fd x w of (r, w') \<Rightarrow> (r, (w', l))),
     ioctl_TIOCINQ = (\<lambda>fd (w, l). case ioctl_TIOCINQ os fd w of (r, w') \<Rightarrow> (r, (w', l))),
     sys_read = (\<lambda>fd n (w, l). case sys_read os fd n w of (r, w') \<Rightarrow> (r, (w', l))),
     sys_write = (\<lambda>fd n (w, l). case sys_write os fd n w of (r, w') \<Rightarrow> (r, (w', l))),
     pselect = (\<lambda>d fd t (w, l). case pselect os d fd t w of (r, w') \<Rightarrow> (r, (w', l @ [t])))\<rparr>"

section \<open>A simulated device for concrete runs\<close>

text \<open>
  \<^verbatim>\<open>cfsetispeed\<close> and \<^verbatim>\<open>cfsetospeed\<close> of the GNU C library for Linux: a speed that is
  no speed code (a bit outside \<^verbatim>\<open>CBAUD\<close> = 4111 and not one of \<^verbatim>\<open>B57600\<close> = 4097 to
  \<^verbatim>\<open>B4000000\<close> = 4111) is refused and changes nothing. Otherwise the speed is stored
  in its field and written into the speed bits of \<^verbatim>\<open>c_cflag\<close> (\<^verbatim>\<open>CBAUD | CBAUDEX\<close> is
  4111); \<^verbatim>\<open>cfsetispeed\<close> with the speed 0 sets \<^verbatim>\<open>IBAUD0\<close> (2147483648) in
  \<^verbatim>\<open>c_iflag\<close> instead, and clears it with any other speed.
\<close>

definition glibc_speed_refused :: "speed_t \<Rightarrow> bool" where
  "glibc_speed_refused speed = (speed AND NOT 4111 \<noteq> 0 \<and> (speed < 4097 \<or> speed > 4111))"

definition glibc_cfsetospeed :: "speed_t \<Rightarrow> termios \<Rightarrow> termios" where
  "glibc_cfsetospeed speed t =
     (if glibc_speed_refused speed then t
      else t\<lparr>c_ospeed := speed, c_cflag := (c_cflag t AND NOT 4111) OR speed\<rparr>)"

definition glibc_cfsetispeed :: "speed_t \<Rightarrow> termios \<Rightarrow> termios" where
  "glibc_cfsetispeed speed t =
     (if glibc_speed_refused speed then t
      else if speed = 0 then t\<lparr>c_ispeed := speed, c_iflag := c_iflag t OR 2147483648\<rparr>
      else t\<lparr>c_ispeed := speed, c_iflag := c_iflag t AND NOT 2147483648,
             c_cflag := (c_cflag t AND NOT 4111) OR speed\<rparr>)"

text \<open>
  The masks and speed codes of Linux (\<^verbatim>\<open>asm-generic/termbits.h\<close>, written in decimal),
  where the source compiles its \<^verbatim>\<open>TIOCSSERIAL\<close> path, with the speed functions of the
  GNU C library, whose headers from version 2.20 on do not define \<^verbatim>\<open>_BSD_SOURCE\<close>.
\<close>

definition linux :: platform where
  "linux = \<lparr>
     CLOCAL = 2048, CREAD = 128, ICANON = 2, ECHO = 8, ECHOE = 16, ECHOK = 32, ECHONL = 64,
     ISIG = 1, IEXTEN = 32768, OPOST = 1, INLCR = 64, IGNCR = 128, ICRNL = 256, IGNBRK = 1,
     IUCLC = Some 512, PARMRK = Some 8, CSIZE = 48, CS8 = 48, CS7 = 32, CS6 = 16, CS5 = 0,
     CSTOPB = 64, INPCK = 16, ISTRIP = 32, PARENB = 256, PARODD = 512, IXON = 1024,
     IXOFF = 4096, IXANY = Some 2048, CRTSCTS = 2147483648, VMIN = 6, VTIME = 5,
     ASYNC_SPD_MASK = 4144, ASYNC_SPD_CUST = 48,
     speed_macro = map_of [(0, 0), (50, 1), (75, 2), (110, 3), (134, 4), (150, 5), (200, 6),
       (300, 7), (600, 8), (1200, 9), (1800, 10), (2400, 11), (4800, 12), (9600, 13),
       (19200, 14), (38400, 15), (57600, 4097), (115200, 4098), (230400, 4099),
       (460800, 4100), (921600, 4103), (1000000, 4104), (1152000, 4105), (1500000, 4106),
       (2000000, 4107), (2500000, 4108), (3000000, 4109), (3500000, 4110),
       (4000000, 4111)],
     custom_baud = TIOCSSERIAL_path, cfsetspeed = None,
     cfsetispeed = glibc_cfsetispeed, cfsetospeed = glibc_cfsetospeed\<rparr>"

text \<open>
  The state of the simulated world: the clock and the time one reading of the clock
  takes, the instants at which the bytes not yet read arrive (in ascending order), the
  instant from which the device accepts output, the line settings of the device and how
  often they were set, the open descriptors, and the timeouts \<open>pselect\<close> was called with.
\<close>

record sim =
  sim_time :: timespec
  sim_tick :: timespec
  sim_rx :: "timespec list"
  sim_tx :: timespec
  sim_attr :: termios
  sim_sets :: nat
  sim_fds :: "int list"
  sim_waits :: "timespec list"

definition timespec_le :: "timespec \<Rightarrow> timespec \<Rightarrow> bool" where
  "timespec_le a b = (tv_sec a < tv_sec b \<or> (tv_sec a = tv_sec b \<and> tv_nsec a \<le> tv_nsec b))"

definition arrived :: "sim \<Rightarrow> nat" where
  "arrived w = length (takeWhile (\<lambda>a. timespec_le a (sim_time w)) (sim_rx w))"

text \<open>
  \<open>pselect\<close> of the simulation: an invalid timeout (a negative field, or nanoseconds out
  of range) fails with \<^verbatim>\<open>EINVAL\<close> (22); otherwise the call returns 1 at the instant the
  descriptor becomes ready when that is within the timeout, and 0 once the timeout has
  passed.
\<close>

definition next_ready :: "direction \<Rightarrow> sim \<Rightarrow> timespec option" where
  "next_ready d w =
     (case d of
        for_writing \<Rightarrow> Some (sim_tx w)
      | for_reading \<Rightarrow> (case sim_rx w of [] \<Rightarrow> None | a # rest \<Rightarrow> Some a))"

definition sim_pselect ::
  "direction \<Rightarrow> int \<Rightarrow> timespec \<Rightarrow> sim \<Rightarrow> (int \<times> errno \<times> bool) \<times> sim" where
  "sim_pselect d fd t w0 =
     (let w = w0\<lparr>sim_waits := sim_waits w0 @ [t]\<rparr>
      in if tv_sec t < 0 \<or> tv_nsec t < 0 \<or> tv_nsec t \<ge> 1000000000
         then ((-1, errno_other 22, False), w)
         else
           (let limit = timespec_plus (sim_time w) t
            in case next_ready d w of
                 None \<Rightarrow> ((0, errno_other 0, False), w\<lparr>sim_time := limit\<rparr>)
               | Some a \<Rightarrow>
                   if timespec_le a limit
                   then ((1, errno_other 0, True),
                         w\<lparr>sim_time := (if timespec_le a (sim_time w) then sim_time w else a)\<rparr>)
                   else ((0, errno_other 0, False), w\<lparr>sim_time := limit\<rparr>)))"

definition sim_read :: "int \<Rightarrow> nat \<Rightarrow> sim \<Rightarrow> int \<times> sim" where
  "sim_read fd n w =
     (let k = min n (arrived w)
      in if k = 0 then (-1, w) else (int k, w\<lparr>sim_rx := drop k (sim_rx w)\<rparr>))"

definition sim_os :: "sim os" where
  "sim_os = \<lparr>
     clock_gettime = (\<lambda>w. (sim_time w, w\<lparr>sim_time := timespec_plus (sim_time w) (sim_tick w)\<rparr>)),
     sys_open = (\<lambda>p w. ((3, errno_other 0), w\<lparr>sim_fds := 3 # sim_fds w\<rparr>)),
     sys_close = (\<lambda>fd w. w\<lparr>sim_fds := remove1 fd (sim_fds w)\<rparr>),
     tcgetattr = (\<lambda>fd w. ((0, sim_attr w), w)),
     tcsetattr = (\<lambda>fd t w. w\<lparr>sim_attr := t, sim_sets := Suc (sim_sets w)\<rparr>),
     ioctl_IOSSIOSPEED = (\<lambda>fd b w. ((0, errno_other 0), w)),
     ioctl_TIOCGSERIAL =
       (\<lambda>fd w. (\<lparr>custom_divisor = 0, baud_base = 115200, flags = 0\<rparr>, w)),
     ioctl_TIOCSSERIAL = (\<lambda>fd x w. ((0, errno_other 0), w)),
     ioctl_TIOCINQ = (\<lambda>fd w. ((0, int (arrived w), errno_other 0), w)),
     sys_read = sim_read,
     sys_write = (\<lambda>fd n w. (int n, w)),
     pselect = sim_pselect\<rparr>"

text \<open>
  A quiet world at time 0 whose clock readings take no time, in which the bytes of the
  list are still to arrive and the device accepts output at once.
\<close>

definition sim_start :: "timespec list \<Rightarrow> sim" where
  "sim_start rx = \<lparr>sim_time = \<lparr>tv_sec = 0, tv_nsec = 0\<rparr>,
     sim_tick = \<lparr>tv_sec = 0, tv_nsec = 0\<rparr>, sim_rx = rx,
     sim_tx = \<lparr>tv_sec = 0, tv_nsec = 0\<rparr>,
     sim_attr = \<lparr>c_iflag = 0, c_oflag = 0, c_cflag = 0, c_lflag = 0, c_cc = (\<lambda>i. 0),
                 c_ispeed = 0, c_ospeed = 0\<rparr>,
     sim_sets = 0, sim_fds = [], sim_waits = []\<rparr>"

text \<open>A timeout profile from its five fields, in the order of the record.\<close>

definition profile :: "nat \<Rightarrow> nat \<Rightarrow> nat \<Rightarrow> nat \<Rightarrow> nat \<Rightarrow> Timeout" where
  "profile ibt rc rm wc wm = \<lparr>inter_byte_timeout = ibt, read_timeout_constant = rc,
     read_timeout_multiplier = rm, write_timeout_constant = wc,
     write_timeout_multiplier = wm\<rparr>"

text \<open>An open handle on descriptor 3 with a given timeout profile.\<close>

definition open_handle :: "Timeout \<Rightarrow> SerialImpl" where
  "open_handle t =
     setTimeout t
       ((initial_members ''/dev/ttyS0'' 9600 eightbits parity_none stopbits_one
           flowcontrol_none)\<lparr>fd_' := 3, is_open_' := True\<rparr>)"

section \<open>The invariant of the flow control booleans\<close>

definition flow_ok :: "SerialImpl \<Rightarrow> bool" where
  "flow_ok s = (\<not> (xonxoff_' s \<and> rtscts_' s))"

section \<open>Properties of the timespec arithmetic\<close>

lemma normalize_neg_total: "total_ns (normalize_neg ts) = total_ns ts"
proof (induction ts rule: normalize_neg.induct)
  case (1 ts)
  show ?case
  proof (cases "tv_nsec ts < 0")
    case True
    with "1.IH" show ?thesis
      by (subst normalize_neg.simps) (simp add: total_ns_def)
  next
    case False
    then show ?thesis by (simp add: normalize_neg.simps)
  qed
qed

lemma normalize_neg_lower: "0 \<le> tv_nsec (normalize_neg ts)"
proof (induction ts rule: normalize_neg.induct)
  case (1 ts)
  show ?case
  proof (cases "tv_nsec ts < 0")
    case True
    with "1.IH" show ?thesis
      by (subst normalize_neg.simps) simp
  next
    case False
    then show ?thesis by (simp add: normalize_neg.simps)
  qed
qed

lemma normalize_pos_total: "total_ns (normalize_pos ts) = total_ns ts"
proof (induction ts rule: normalize_pos.induct)
  case (1 ts)
  show ?case
  proof (cases "tv_nsec ts \<ge> 1000000000")
    case True
    with "1.IH" show ?thesis
      by (subst normalize_pos.simps) (simp add: total_ns_def)
  next
    case False
    then show ?thesis by (simp add: normalize_pos.simps)
  qed
qed

lemma normalize_pos_range:
  "0 \<le> tv_nsec ts \<Longrightarrow>
   0 \<le> tv_nsec (normalize_pos ts) \<and> tv_nsec (normalize_pos ts) < 1000000000"
proof (induction ts rule: normalize_pos.induct)
  case (1 ts)
  show ?case
  proof (cases "tv_nsec ts \<ge> 1000000000")
    case True
    with "1.IH" show ?thesis
      by (subst (1 2) normalize_pos.simps) simp
  next
    case False
    with "1.prems" show ?thesis by (simp add: normalize_pos.simps)
  qed
qed

lemma normalize_total: "total_ns (normalize_timespec ts) = total_ns ts"
  by (simp add: normalize_timespec_def normalize_pos_total normalize_neg_total)

lemma normalize_range: "0 \<le> tv_nsec (normalize_timespec ts) \<and> tv_nsec (normalize_timespec ts) < 1000000000"
  unfolding normalize_timespec_def by (rule normalize_pos_range) (rule normalize_neg_lower)


text \<open>The closed form of \<open>normalize_timespec\<close>: the carry is the floor quotient by \<open>10^9\<close>.\<close>

lemma normalize_eq:
  "normalize_timespec ts = \<lparr>tv_sec = tv_sec ts + tv_nsec ts div 1000000000,
                   tv_nsec = tv_nsec ts mod 1000000000\<rparr>"
proof -
  define n where "n = normalize_timespec ts"
  define c :: int where "c = 1000000000"
  have t: "tv_nsec ts = c * (tv_sec n - tv_sec ts) + tv_nsec n"
    using normalize_total [of ts] by (simp add: total_ns_def n_def c_def algebra_simps)
  have r: "0 \<le> tv_nsec n" "tv_nsec n < c"
    using normalize_range [of ts] by (simp_all add: n_def c_def)
  have "tv_nsec ts div c = tv_sec n - tv_sec ts"
    using t r by (rule int_div_pos_eq)
  moreover have "tv_nsec ts mod c = tv_nsec n"
    using t r by (rule int_mod_pos_eq)
  ultimately have "n = \<lparr>tv_sec = tv_sec ts + tv_nsec ts div c, tv_nsec = tv_nsec ts mod c\<rparr>"
    by simp
  then show ?thesis by (simp add: n_def c_def)
qed

lemma timespec_plus_total: "total_ns (timespec_plus a b) = total_ns a + total_ns b"
  by (simp add: timespec_plus_def normalize_total) (simp add: total_ns_def algebra_simps)

lemma timespec_minus_total: "total_ns (timespec_minus a b) = total_ns a - total_ns b"
  by (simp add: timespec_minus_def normalize_total) (simp add: total_ns_def algebra_simps)

lemma timespec_times_total: "total_ns (timespec_times ts mul) = total_ns ts * int mul"
  by (simp add: timespec_times_def normalize_total) (simp add: total_ns_def algebra_simps)

lemma timespec_from_millis_total: "total_ns (timespec_from_millis ms) = int ms * 1000000"
  by (simp add: timespec_from_millis_def normalize_total) (simp add: total_ns_def)

text \<open>
  In exact arithmetic, whatever the two fields are, \<open>normalize_timespec\<close> gives a timespec
  whose nanoseconds are in \<open>[0, 10^9)\<close> and which stands for the same time
  \<open>tv_sec * 10^9 + tv_nsec\<close>; the sum, the difference and the multiple are normalized in
  the same way and stand for the exact sum, difference and multiple of the times of
  their arguments.
\<close>

lemma normalize_timespec_exact:
  "(0 \<le> tv_nsec (normalize_timespec ts) \<and> tv_nsec (normalize_timespec ts) < 1000000000 \<and>
    total_ns (normalize_timespec ts) = total_ns ts) \<and>
   (0 \<le> tv_nsec (timespec_plus a b) \<and> tv_nsec (timespec_plus a b) < 1000000000 \<and>
    total_ns (timespec_plus a b) = total_ns a + total_ns b) \<and>
   (0 \<le> tv_nsec (timespec_minus a b) \<and> tv_nsec (timespec_minus a b) < 1000000000 \<and>
    total_ns (timespec_minus a b) = total_ns a - total_ns b) \<and>
   (0 \<le> tv_nsec (timespec_times a mul) \<and> tv_nsec (timespec_times a mul) < 1000000000 \<and>
    total_ns (timespec_times a mul) = total_ns a * int mul)"
proof (intro conjI)
  show "total_ns (normalize_timespec ts) = total_ns ts" by (rule normalize_total)
  show "total_ns (timespec_plus a b) = total_ns a + total_ns b" by (rule timespec_plus_total)
  show "total_ns (timespec_minus a b) = total_ns a - total_ns b"
    by (rule timespec_minus_total)
  show "total_ns (timespec_times a mul) = total_ns a * int mul"
    by (rule timespec_times_total)
qed (simp_all add: timespec_plus_def timespec_minus_def timespec_times_def normalize_range)

section \<open>The timeout profile of a handle\<close>

text \<open>
  C10. \<open>getTimeout\<close> after \<open>setTimeout\<close> gives back the profile that was set, field for
  field, whatever timespecs \<open>setTimeout\<close> has cached beside it.
\<close>

theorem getTimeout_setTimeout: "getTimeout (setTimeout t s) = t"
  by (simp add: getTimeout_def setTimeout_def)

lemma cached_after_setTimeout:
  "inter_byte_timeout_' (setTimeout t s) = timespec_from_millis (inter_byte_timeout t)"
  "read_timeout_constant_' (setTimeout t s) = timespec_from_millis (read_timeout_constant t)"
  "read_timeout_multiplier_' (setTimeout t s) = timespec_from_millis (read_timeout_constant t)"
  "write_timeout_constant_' (setTimeout t s) = timespec_from_millis (write_timeout_constant t)"
  "write_timeout_multiplier_' (setTimeout t s) =
     timespec_from_millis (write_timeout_multiplier t)"
  by (simp_all add: setTimeout_def)

text \<open>
  The expiry point of a read in nanoseconds: the constant of the profile is counted once
  as the constant and once more for every requested byte; the multiplier of the profile
  does not occur.
\<close>

lemma read_endtime_total:
  "total_ns (read_endtime (setTimeout t s) now sz) =
     total_ns now + int (read_timeout_constant t) * 1000000
       + int (read_timeout_constant t) * 1000000 * int sz"
  by (simp add: read_endtime_def cached_after_setTimeout timespec_plus_total
      timespec_times_total timespec_from_millis_total)

lemma write_endtime_total:
  "total_ns (write_endtime (setTimeout t s) now len) =
     total_ns now + int (write_timeout_constant t) * 1000000
       + int (write_timeout_multiplier t) * 1000000 * int len"
  by (simp add: write_endtime_def cached_after_setTimeout timespec_plus_total
      timespec_times_total timespec_from_millis_total)

section \<open>The machine arithmetic against the exact one\<close>

text \<open>
  Where nothing overflows and the nanoseconds stay within \<open>2^53 = 9007199254740992\<close> in
  magnitude, every conversion to \<^verbatim>\<open>double\<close> is exact, and the machine versions of the
  timespec functions return what the exact ones return.
\<close>

lemma double_of_exact: "\<bar>x\<bar> \<le> 9007199254740992 \<Longrightarrow> double_of x = x"
proof -
  assume a: "\<bar>x\<bar> \<le> 9007199254740992"
  define m where "m = nat \<bar>x\<bar>"
  have "round_magnitude m = m"
  proof (cases "m < 9007199254740992")
    case True
    then show ?thesis by (simp add: round_magnitude_def ulp_exp.simps)
  next
    case False
    with a have "m = 9007199254740992" by (simp add: m_def)
    then show ?thesis by (simp add: round_magnitude_def ulp_exp.simps)
  qed
  then show ?thesis by (simp add: double_of_def m_def [symmetric]) (simp add: m_def sgn_if)
qed

lemma wrap_long_id: "is_long x \<Longrightarrow> wrap_long x = x"
  by (simp add: wrap_long_def is_long_def)

lemma normalize_neg_upper: "tv_nsec ts < 0 \<Longrightarrow> tv_nsec (normalize_neg ts) < 1000000000"
proof (induction ts rule: normalize_neg.induct)
  case (1 ts)
  show ?case
  proof (cases "tv_nsec ts + 1000000000 < 0")
    case True
    with "1.prems" "1.IH" show ?thesis
      by (subst normalize_neg.simps) simp
  next
    case False
    with "1.prems" show ?thesis
      by (subst normalize_neg.simps) (simp add: normalize_neg.simps)
  qed
qed

lemma normalize_neg_eq:
  "tv_nsec ts < 0 \<Longrightarrow>
   normalize_neg ts = \<lparr>tv_sec = tv_sec ts + tv_nsec ts div 1000000000,
                        tv_nsec = tv_nsec ts mod 1000000000\<rparr>"
proof -
  assume "tv_nsec ts < 0"
  then have "tv_nsec (normalize_neg ts) < 1000000000" by (rule normalize_neg_upper)
  then have "normalize_pos (normalize_neg ts) = normalize_neg ts"
    by (subst normalize_pos.simps) simp
  then show ?thesis
    using normalize_eq [of ts] by (simp add: normalize_timespec_def)
qed

lemma normalize_pos_eq:
  "0 \<le> tv_nsec ts \<Longrightarrow>
   normalize_pos ts = \<lparr>tv_sec = tv_sec ts + tv_nsec ts div 1000000000,
                        tv_nsec = tv_nsec ts mod 1000000000\<rparr>"
proof -
  assume "0 \<le> tv_nsec ts"
  then have "normalize_neg ts = ts"
    by (subst normalize_neg.simps) simp
  then show ?thesis
    using normalize_eq [of ts] by (simp add: normalize_timespec_def)
qed

lemma normalize_neg_long_exact:
  "tv_nsec ts < 0 \<Longrightarrow> - 9007199254740992 \<le> tv_nsec ts \<Longrightarrow> is_long (tv_sec ts) \<Longrightarrow>
   is_long (tv_sec ts + tv_nsec ts div 1000000000) \<Longrightarrow>
   normalize_neg_long ts = normalize_pos_long (normalize_neg ts)"
proof (induction ts rule: normalize_neg.induct)
  case (1 ts)
  define s where "s = tv_sec ts"
  define n where "n = tv_nsec ts"
  define q where "q = n div 1000000000"
  note p = "1.prems" [folded s_def n_def, folded q_def]
  have q: "q < 0" using p(1) by (simp add: q_def)
  have q': "(n + 1000000000) div 1000000000 = q + 1" by (simp add: q_def)
  have e1: "double_of n = n" using p(1,2) by (intro double_of_exact) simp
  have e2: "double_of (n + 1000000000) = n + 1000000000"
    using p(1,2) by (intro double_of_exact) simp
  have a: "long_plus_1e9 n = Some (n + 1000000000)"
    using p(1,2) by (simp add: long_plus_1e9_def e1 e2 long_of_def is_long_def)
  have b: "long_of (s - 1) = Some (s - 1)"
    using p(3,4) q by (simp add: long_of_def is_long_def)
  define t where "t = \<lparr>tv_sec = s - 1, tv_nsec = n + 1000000000\<rparr>"
  have t: "ts\<lparr>tv_nsec := tv_nsec ts + 1000000000, tv_sec := tv_sec ts - 1\<rparr> = t"
    by (simp add: t_def s_def n_def)
  have u: "normalize_neg_long ts = normalize_neg_long t"
    using p(1) by (subst normalize_neg_long.simps) (simp add: a b t_def n_def [symmetric] s_def [symmetric])
  have v: "normalize_neg ts = normalize_neg t"
    using p(1) unfolding t [symmetric] by (subst normalize_neg.simps) (simp add: n_def)
  show ?case
  proof (cases "n + 1000000000 < 0")
    case True
    have "normalize_neg_long t = normalize_pos_long (normalize_neg t)"
      unfolding t [symmetric]
    proof (rule "1.IH")
      show "tv_nsec ts < 0" using p(1) by (simp add: n_def)
      show "tv_nsec (ts\<lparr>tv_nsec := tv_nsec ts + 1000000000, tv_sec := tv_sec ts - 1\<rparr>) < 0"
        using True by (simp add: n_def)
      show "- 9007199254740992 \<le>
          tv_nsec (ts\<lparr>tv_nsec := tv_nsec ts + 1000000000, tv_sec := tv_sec ts - 1\<rparr>)"
        using p(2) by (simp add: n_def)
      show "is_long (tv_sec (ts\<lparr>tv_nsec := tv_nsec ts + 1000000000, tv_sec := tv_sec ts - 1\<rparr>))"
        using b by (simp add: long_of_def s_def split: if_splits)
      show "is_long
          (tv_sec (ts\<lparr>tv_nsec := tv_nsec ts + 1000000000, tv_sec := tv_sec ts - 1\<rparr>) +
           tv_nsec (ts\<lparr>tv_nsec := tv_nsec ts + 1000000000, tv_sec := tv_sec ts - 1\<rparr>)
             div 1000000000)"
        using p(4) q' by (simp add: n_def [symmetric] s_def [symmetric])
    qed
    with u v show ?thesis by simp
  next
    case False
    then have "normalize_neg_long t = normalize_pos_long t"
      by (subst normalize_neg_long.simps) (simp add: t_def)
    moreover from False have "normalize_neg t = t"
      by (subst normalize_neg.simps) (simp add: t_def)
    ultimately show ?thesis using u v by simp
  qed
qed

lemma normalize_pos_long_exact:
  "0 \<le> tv_nsec ts \<Longrightarrow> tv_nsec ts \<le> 9007199254740992 \<Longrightarrow> is_long (tv_sec ts) \<Longrightarrow>
   is_long (tv_sec ts + tv_nsec ts div 1000000000) \<Longrightarrow>
   normalize_pos_long ts = Some (normalize_pos ts)"
proof (induction ts rule: normalize_pos.induct)
  case (1 ts)
  define s where "s = tv_sec ts"
  define n where "n = tv_nsec ts"
  define q where "q = n div 1000000000"
  note p = "1.prems" [folded s_def n_def, folded q_def]
  have e1: "double_of n = n" using p(1,2) by (intro double_of_exact) simp
  show ?case
  proof (cases "1000000000 \<le> n")
    case False
    then have "normalize_pos_long ts = Some ts"
      by (subst normalize_pos_long.simps) (simp add: n_def [symmetric] e1)
    moreover from False have "normalize_pos ts = ts"
      by (subst normalize_pos.simps) (simp add: n_def [symmetric])
    ultimately show ?thesis by simp
  next
    case True
    then have q: "0 < q" by (simp add: q_def pos_imp_zdiv_pos_iff)
    have q': "(n - 1000000000) div 1000000000 = q - 1"
      using div_add_self2 [of 1000000000 "n - 1000000000"] by (simp add: q_def)
    have e2: "double_of (n - 1000000000) = n - 1000000000"
      using True p(2) by (intro double_of_exact) simp
    have a: "long_minus_1e9 n = Some (n - 1000000000)"
      using True p(2) by (simp add: long_minus_1e9_def e1 e2 long_of_def is_long_def)
    have b: "long_of (s + 1) = Some (s + 1)"
      using p(3,4) q by (simp add: long_of_def is_long_def)
    define t where "t = \<lparr>tv_sec = s + 1, tv_nsec = n - 1000000000\<rparr>"
    have t: "ts\<lparr>tv_nsec := tv_nsec ts - 1000000000, tv_sec := tv_sec ts + 1\<rparr> = t"
      by (simp add: t_def s_def n_def)
    have u: "normalize_pos_long ts = normalize_pos_long t"
      using True
      by (subst normalize_pos_long.simps)
         (simp add: a b e1 t_def n_def [symmetric] s_def [symmetric])
    have v: "normalize_pos ts = normalize_pos t"
      using True unfolding t [symmetric] by (subst normalize_pos.simps) (simp add: n_def)
    have "normalize_pos_long t = Some (normalize_pos t)"
      unfolding t [symmetric]
    proof (rule "1.IH")
      show "1000000000 \<le> tv_nsec ts" using True by (simp add: n_def)
      show "0 \<le> tv_nsec (ts\<lparr>tv_nsec := tv_nsec ts - 1000000000, tv_sec := tv_sec ts + 1\<rparr>)"
        using True by (simp add: n_def)
      show "tv_nsec (ts\<lparr>tv_nsec := tv_nsec ts - 1000000000, tv_sec := tv_sec ts + 1\<rparr>)
          \<le> 9007199254740992"
        using p(2) by (simp add: n_def)
      show "is_long (tv_sec (ts\<lparr>tv_nsec := tv_nsec ts - 1000000000, tv_sec := tv_sec ts + 1\<rparr>))"
        using b by (simp add: long_of_def s_def split: if_splits)
      show "is_long
          (tv_sec (ts\<lparr>tv_nsec := tv_nsec ts - 1000000000, tv_sec := tv_sec ts + 1\<rparr>) +
           tv_nsec (ts\<lparr>tv_nsec := tv_nsec ts - 1000000000, tv_sec := tv_sec ts + 1\<rparr>)
             div 1000000000)"
        using p(4) q' by (simp add: n_def [symmetric] s_def [symmetric])
    qed
    with u v show ?thesis by simp
  qed
qed

lemma normalize_long_exact:
  assumes "is_long (tv_sec ts)" and "- 9007199254740992 \<le> tv_nsec ts"
    and "tv_nsec ts \<le> 9007199254740992"
    and "is_long (tv_sec ts + tv_nsec ts div 1000000000)"
  shows "normalize_long ts = Some (normalize_timespec ts)"
proof (cases "tv_nsec ts < 0")
  case True
  define t where "t = normalize_neg ts"
  have t: "t = \<lparr>tv_sec = tv_sec ts + tv_nsec ts div 1000000000,
                  tv_nsec = tv_nsec ts mod 1000000000\<rparr>"
    unfolding t_def using True by (rule normalize_neg_eq)
  have a: "normalize_neg_long ts = normalize_pos_long t"
    unfolding t_def using True assms(2,1,4) by (rule normalize_neg_long_exact)
  have "normalize_pos_long t = Some (normalize_pos t)"
    by (rule normalize_pos_long_exact) (use assms(4) in \<open>simp_all add: t\<close>)
  with a show ?thesis
    by (simp add: normalize_long_def normalize_timespec_def t_def)
next
  case False
  then have n: "normalize_neg ts = ts"
    by (subst normalize_neg.simps) simp
  from False have a: "normalize_neg_long ts = normalize_pos_long ts"
    by (subst normalize_neg_long.simps) simp
  have "normalize_pos_long ts = Some (normalize_pos ts)"
    using False assms by (intro normalize_pos_long_exact) simp_all
  with a n show ?thesis
    by (simp add: normalize_long_def normalize_timespec_def)
qed

lemma plus_long_exact:
  assumes "is_long (tv_sec a + tv_sec b)"
    and "- 9007199254740992 \<le> tv_nsec a + tv_nsec b"
    and "tv_nsec a + tv_nsec b \<le> 9007199254740992"
    and "is_long (tv_sec a + tv_sec b + (tv_nsec a + tv_nsec b) div 1000000000)"
  shows "plus_long a b = Some (timespec_plus a b)"
proof -
  have "is_long (tv_nsec a + tv_nsec b)"
    using assms(2,3) by (simp add: is_long_def)
  with assms(1) have "plus_long a b =
      normalize_long \<lparr>tv_sec = tv_sec a + tv_sec b, tv_nsec = tv_nsec a + tv_nsec b\<rparr>"
    by (simp add: plus_long_def long_of_def)
  also have "\<dots> = Some (timespec_plus a b)"
    unfolding timespec_plus_def by (rule normalize_long_exact) (use assms in simp_all)
  finally show ?thesis .
qed

lemma minus_long_exact:
  assumes "is_long (tv_sec a - tv_sec b)"
    and "- 9007199254740992 \<le> tv_nsec a - tv_nsec b"
    and "tv_nsec a - tv_nsec b \<le> 9007199254740992"
    and "is_long (tv_sec a - tv_sec b + (tv_nsec a - tv_nsec b) div 1000000000)"
  shows "minus_long a b = Some (timespec_minus a b)"
proof -
  have "is_long (tv_nsec a - tv_nsec b)"
    using assms(2,3) by (simp add: is_long_def)
  with assms(1) have "minus_long a b =
      normalize_long \<lparr>tv_sec = tv_sec a - tv_sec b, tv_nsec = tv_nsec a - tv_nsec b\<rparr>"
    by (simp add: minus_long_def long_of_def)
  also have "\<dots> = Some (timespec_minus a b)"
    unfolding timespec_minus_def by (rule normalize_long_exact) (use assms in simp_all)
  finally show ?thesis .
qed

lemma times_long_exact:
  assumes "is_long (tv_sec ts * int mul)"
    and "- 9007199254740992 \<le> tv_nsec ts * int mul"
    and "tv_nsec ts * int mul \<le> 9007199254740992"
    and "is_long (tv_sec ts * int mul + (tv_nsec ts * int mul) div 1000000000)"
  shows "times_long ts mul = Some (timespec_times ts mul)"
proof -
  have "is_long (tv_nsec ts * int mul)"
    using assms(2,3) by (simp add: is_long_def)
  with assms(1) have "times_long ts mul =
      normalize_long \<lparr>tv_sec = tv_sec ts * int mul, tv_nsec = tv_nsec ts * int mul\<rparr>"
    by (simp add: times_long_def wrap_long_id)
  also have "\<dots> = Some (timespec_times ts mul)"
    unfolding timespec_times_def by (rule normalize_long_exact) (use assms in simp_all)
  finally show ?thesis .
qed

lemma from_millis_long_exact:
  assumes "millis < 4294967296"
  shows "from_millis_long millis = Some (timespec_from_millis millis)"
proof -
  define n where "n = int (millis * 1000000)"
  have n: "0 \<le> n" "n < 4294967296000000" using assms by (simp_all add: n_def)
  have "n div 1000000000 \<le> n div 1"
    using n by (intro zdiv_mono2) simp_all
  with n have q: "0 \<le> n div 1000000000" "n div 1000000000 < 4294967296000000"
    by (simp_all add: pos_imp_zdiv_nonneg_iff)
  have "wrap_long n = n"
    using n by (intro wrap_long_id) (simp add: is_long_def)
  then have "from_millis_long millis = normalize_long \<lparr>tv_sec = 0, tv_nsec = n\<rparr>"
    by (simp add: from_millis_long_def n_def)
  also have "\<dots> = Some (timespec_from_millis millis)"
    unfolding timespec_from_millis_def n_def [symmetric]
    by (rule normalize_long_exact) (use n q in \<open>simp_all add: is_long_def\<close>)
  finally show ?thesis .
qed

subsection \<open>Normalization and the three operators\<close>

text \<open>
  C7, as the claim states it, fails. The nanosecond field \<open>9007199254740993 = 2^53 + 1\<close>
  lies outside \<open>[0, 10^9)\<close>, and no integer overflows on the way, yet \<^verbatim>\<open>normalize\<close>
  returns 9007199 s and 254740992 ns, one nanosecond less than the total it was given:
  the second loop subtracts the \<^verbatim>\<open>double\<close> literal \<^verbatim>\<open>1e9\<close> (line 90), and the first
  conversion of the field to \<^verbatim>\<open>double\<close> rounds \<open>2^53 + 1\<close> to \<open>2^53\<close>.
\<close>

theorem normalize_inexact_above_2_53:
  "normalize_long \<lparr>tv_sec = 0, tv_nsec = 9007199254740993\<rparr> =
     Some \<lparr>tv_sec = 9007199, tv_nsec = 254740992\<rparr> \<and>
   total_ns \<lparr>tv_sec = 0, tv_nsec = 9007199254740993\<rparr> = 9007199254740993 \<and>
   total_ns \<lparr>tv_sec = 9007199, tv_nsec = 254740992\<rparr> = 9007199254740992"
proof -
  define ts where "ts = \<lparr>tv_sec = 0, tv_nsec = 9007199254740993\<rparr>"
  define t where "t = \<lparr>tv_sec = 1, tv_nsec = 9007198254740992\<rparr>"
  have d: "double_of 9007199254740993 = 9007199254740992"
    by (simp add: double_of_def round_magnitude_def ulp_exp.simps)
  have e: "double_of 9007198254740992 = 9007198254740992"
    by (rule double_of_exact) simp
  have a: "normalize_neg_long ts = normalize_pos_long ts"
    by (subst normalize_neg_long.simps) (simp add: ts_def)
  have b: "normalize_pos_long ts = normalize_pos_long t"
    by (subst normalize_pos_long.simps)
       (simp add: ts_def t_def d e long_minus_1e9_def long_of_def is_long_def)
  have "normalize_pos_long t = Some (normalize_pos t)"
    by (rule normalize_pos_long_exact) (simp_all add: t_def is_long_def)
  also have "normalize_pos t = \<lparr>tv_sec = 9007199, tv_nsec = 254740992\<rparr>"
    by (subst normalize_pos_eq) (simp_all add: t_def)
  finally show ?thesis
    using a b by (simp add: normalize_long_def ts_def total_ns_def)
qed

text \<open>
  C7, amended. For a pair of 64-bit fields whose nanoseconds are at most \<open>2^53\<close> in
  magnitude and whose normalized seconds fit 64 bits, \<^verbatim>\<open>normalize\<close> returns a pair with
  the nanoseconds in \<open>[0, 10^9)\<close> and the same total time. The sum, the difference and
  the product with a count are that normalization of the field-wise result: where the
  field-wise seconds and the normalized seconds fit 64 bits and the field-wise
  nanoseconds are at most \<open>2^53\<close> in magnitude, each returns a pair with the nanoseconds
  in \<open>[0, 10^9)\<close> whose total is the exact sum, difference or product of the totals.
\<close>

theorem normalize_operators_exact_in_range:
  "(is_long (tv_sec ts) \<and> - 9007199254740992 \<le> tv_nsec ts \<and>
    tv_nsec ts \<le> 9007199254740992 \<and>
    is_long (tv_sec ts + tv_nsec ts div 1000000000) \<longrightarrow>
      (\<exists>r. normalize_long ts = Some r \<and> 0 \<le> tv_nsec r \<and> tv_nsec r < 1000000000 \<and>
           total_ns r = total_ns ts)) \<and>
   (is_long (tv_sec a + tv_sec b) \<and> - 9007199254740992 \<le> tv_nsec a + tv_nsec b \<and>
    tv_nsec a + tv_nsec b \<le> 9007199254740992 \<and>
    is_long (tv_sec a + tv_sec b + (tv_nsec a + tv_nsec b) div 1000000000) \<longrightarrow>
      (\<exists>r. plus_long a b = Some r \<and> 0 \<le> tv_nsec r \<and> tv_nsec r < 1000000000 \<and>
           total_ns r = total_ns a + total_ns b)) \<and>
   (is_long (tv_sec a - tv_sec b) \<and> - 9007199254740992 \<le> tv_nsec a - tv_nsec b \<and>
    tv_nsec a - tv_nsec b \<le> 9007199254740992 \<and>
    is_long (tv_sec a - tv_sec b + (tv_nsec a - tv_nsec b) div 1000000000) \<longrightarrow>
      (\<exists>r. minus_long a b = Some r \<and> 0 \<le> tv_nsec r \<and> tv_nsec r < 1000000000 \<and>
           total_ns r = total_ns a - total_ns b)) \<and>
   (is_long (tv_sec a * int mul) \<and> - 9007199254740992 \<le> tv_nsec a * int mul \<and>
    tv_nsec a * int mul \<le> 9007199254740992 \<and>
    is_long (tv_sec a * int mul + (tv_nsec a * int mul) div 1000000000) \<longrightarrow>
      (\<exists>r. times_long a mul = Some r \<and> 0 \<le> tv_nsec r \<and> tv_nsec r < 1000000000 \<and>
           total_ns r = total_ns a * int mul))"
proof (intro conjI impI)
  assume "is_long (tv_sec ts) \<and> - 9007199254740992 \<le> tv_nsec ts \<and>
    tv_nsec ts \<le> 9007199254740992 \<and>
    is_long (tv_sec ts + tv_nsec ts div 1000000000)"
  then have "normalize_long ts = Some (normalize_timespec ts)"
    by (intro normalize_long_exact) simp_all
  then show "\<exists>r. normalize_long ts = Some r \<and> 0 \<le> tv_nsec r \<and> tv_nsec r < 1000000000 \<and>
      total_ns r = total_ns ts"
    using normalize_range [of ts] by (simp add: normalize_total)
next
  assume "is_long (tv_sec a + tv_sec b) \<and> - 9007199254740992 \<le> tv_nsec a + tv_nsec b \<and>
    tv_nsec a + tv_nsec b \<le> 9007199254740992 \<and>
    is_long (tv_sec a + tv_sec b + (tv_nsec a + tv_nsec b) div 1000000000)"
  then have "plus_long a b = Some (timespec_plus a b)"
    by (intro plus_long_exact) simp_all
  then show "\<exists>r. plus_long a b = Some r \<and> 0 \<le> tv_nsec r \<and> tv_nsec r < 1000000000 \<and>
      total_ns r = total_ns a + total_ns b"
    by (simp add: timespec_plus_total) (simp add: timespec_plus_def normalize_range)
next
  assume "is_long (tv_sec a - tv_sec b) \<and> - 9007199254740992 \<le> tv_nsec a - tv_nsec b \<and>
    tv_nsec a - tv_nsec b \<le> 9007199254740992 \<and>
    is_long (tv_sec a - tv_sec b + (tv_nsec a - tv_nsec b) div 1000000000)"
  then have "minus_long a b = Some (timespec_minus a b)"
    by (intro minus_long_exact) simp_all
  then show "\<exists>r. minus_long a b = Some r \<and> 0 \<le> tv_nsec r \<and> tv_nsec r < 1000000000 \<and>
      total_ns r = total_ns a - total_ns b"
    by (simp add: timespec_minus_total) (simp add: timespec_minus_def normalize_range)
next
  assume "is_long (tv_sec a * int mul) \<and> - 9007199254740992 \<le> tv_nsec a * int mul \<and>
    tv_nsec a * int mul \<le> 9007199254740992 \<and>
    is_long (tv_sec a * int mul + (tv_nsec a * int mul) div 1000000000)"
  then have "times_long a mul = Some (timespec_times a mul)"
    by (intro times_long_exact) simp_all
  then show "\<exists>r. times_long a mul = Some r \<and> 0 \<le> tv_nsec r \<and> tv_nsec r < 1000000000 \<and>
      total_ns r = total_ns a * int mul"
    by (simp add: timespec_times_total) (simp add: timespec_times_def normalize_range)
qed

text \<open>
  The four parts at concrete operands: \<open>-1.5 s\<close> normalized, and \<open>1.6 s\<close> and \<open>2.7 s\<close>
  added, subtracted, and the first of them taken three times.
\<close>

theorem normalize_operators_exact_in_range_witness:
  "normalize_long \<lparr>tv_sec = 0, tv_nsec = - 1500000000\<rparr> =
     Some \<lparr>tv_sec = - 2, tv_nsec = 500000000\<rparr> \<and>
   plus_long \<lparr>tv_sec = 1, tv_nsec = 600000000\<rparr> \<lparr>tv_sec = 2, tv_nsec = 700000000\<rparr> =
     Some \<lparr>tv_sec = 4, tv_nsec = 300000000\<rparr> \<and>
   minus_long \<lparr>tv_sec = 1, tv_nsec = 600000000\<rparr> \<lparr>tv_sec = 2, tv_nsec = 700000000\<rparr> =
     Some \<lparr>tv_sec = - 2, tv_nsec = 900000000\<rparr> \<and>
   times_long \<lparr>tv_sec = 1, tv_nsec = 600000000\<rparr> 3 =
     Some \<lparr>tv_sec = 4, tv_nsec = 800000000\<rparr>"
proof -
  define z where "z = \<lparr>tv_sec = 0, tv_nsec = - 1500000000\<rparr>"
  define a where "a = \<lparr>tv_sec = 1, tv_nsec = 600000000\<rparr>"
  define b where "b = \<lparr>tv_sec = 2, tv_nsec = 700000000\<rparr>"
  note t = normalize_operators_exact_in_range [of z a b 3]
  have u: "\<And>r s n. 0 \<le> tv_nsec r \<Longrightarrow> tv_nsec r < 1000000000 \<Longrightarrow>
      total_ns r = s * 1000000000 + n \<Longrightarrow> 0 \<le> n \<Longrightarrow> n < 1000000000 \<Longrightarrow>
      r = \<lparr>tv_sec = s, tv_nsec = n\<rparr>"
  proof -
    fix r :: timespec and s n :: int
    define c :: int where "c = 1000000000"
    assume r: "0 \<le> tv_nsec r" "tv_nsec r < 1000000000"
      and e: "total_ns r = s * 1000000000 + n" and n: "0 \<le> n" "n < 1000000000"
    define v where "v = tv_sec r * c + tv_nsec r"
    have v1: "v = c * tv_sec r + tv_nsec r" and v2: "v = c * s + n"
      using e by (simp_all add: v_def total_ns_def c_def)
    have r': "0 \<le> tv_nsec r" "tv_nsec r < c" and n': "0 \<le> n" "n < c"
      using r n by (simp_all add: c_def)
    have "v div c = tv_sec r" using v1 r' by (rule int_div_pos_eq)
    moreover have "v div c = s" using v2 n' by (rule int_div_pos_eq)
    moreover have "v mod c = tv_nsec r" using v1 r' by (rule int_mod_pos_eq)
    moreover have "v mod c = n" using v2 n' by (rule int_mod_pos_eq)
    ultimately show "r = \<lparr>tv_sec = s, tv_nsec = n\<rparr>" by simp
  qed
  from t have "\<exists>r. normalize_long z = Some r \<and> 0 \<le> tv_nsec r \<and> tv_nsec r < 1000000000 \<and>
      total_ns r = total_ns z"
    by (simp add: z_def is_long_def)
  then have 1: "normalize_long z = Some \<lparr>tv_sec = - 2, tv_nsec = 500000000\<rparr>"
    by (auto simp: z_def total_ns_def dest!: u [where s = "- 2" and n = 500000000])
  from t have "\<exists>r. plus_long a b = Some r \<and> 0 \<le> tv_nsec r \<and> tv_nsec r < 1000000000 \<and>
      total_ns r = total_ns a + total_ns b"
    by (simp add: a_def b_def is_long_def)
  then have 2: "plus_long a b = Some \<lparr>tv_sec = 4, tv_nsec = 300000000\<rparr>"
    by (auto simp: a_def b_def total_ns_def dest!: u [where s = 4 and n = 300000000])
  from t have "\<exists>r. minus_long a b = Some r \<and> 0 \<le> tv_nsec r \<and> tv_nsec r < 1000000000 \<and>
      total_ns r = total_ns a - total_ns b"
    by (simp add: a_def b_def is_long_def)
  then have 3: "minus_long a b = Some \<lparr>tv_sec = - 2, tv_nsec = 900000000\<rparr>"
    by (auto simp: a_def b_def total_ns_def dest!: u [where s = "- 2" and n = 900000000])
  from t have "\<exists>r. times_long a 3 = Some r \<and> 0 \<le> tv_nsec r \<and> tv_nsec r < 1000000000 \<and>
      total_ns r = total_ns a * int 3"
    by (simp add: a_def is_long_def)
  then have 4: "times_long a 3 = Some \<lparr>tv_sec = 4, tv_nsec = 800000000\<rparr>"
    by (auto simp: a_def total_ns_def dest!: u [where s = 4 and n = 800000000])
  from 1 2 3 4 show ?thesis by (simp add: z_def a_def b_def)
qed

section \<open>Evaluation of concrete runs\<close>

lemmas time_eval = timespec_plus_def timespec_minus_def timespec_times_def timespec_min_def
  timespec_from_millis_def normalize_eq

lemmas handle_eval = open_handle_def initial_members_def setTimeout_def zero_timeout_def
  profile_def
  isOpen_def

lemmas sim_eval = sim_os_def sim_pselect_def next_ready_def sim_read_def arrived_def
  timespec_le_def sim_start_def timespec_now_def

lemmas configure_eval = reconfigurePort_def raw_mode_def clear_opt_def standard_baud_def
  set_standard_baud_def glibc_cfsetispeed_def glibc_cfsetospeed_def glibc_speed_refused_def
  baud_cases_def set_custom_baud_def set_bytesize_def set_stopbits_def set_parity_def
  set_flowcontrol_def flow_flags_def linux_def

lemmas loop_eval = read_def write_impl_def read_loop.simps write_loop.simps available_def
  read_endtime_def write_endtime_def Let_def

section \<open>Closing\<close>

text \<open>
  C8. \<open>close\<close> has no exception; after it the handle is not open, and a second \<open>close\<close>
  changes neither the handle nor the world. On a handle that is not open it does nothing.
  On an open handle it passes the descriptor to \<^verbatim>\<open>::close\<close> (unless that is -1), sets it
  to -1 and clears the flag.
\<close>

theorem close_idempotent:
  "\<not> isOpen (fst (close os s w)) \<and>
   close os (fst (close os s w)) (snd (close os s w)) = close os s w \<and>
   (\<not> isOpen s \<longrightarrow> close os s w = (s, w)) \<and>
   (isOpen s \<longrightarrow>
      fd_' (fst (close os s w)) = -1 \<and>
      snd (close os s w) = (if fd_' s = -1 then w else sys_close os (fd_' s) w))"
  by (simp add: close_def isOpen_def Let_def)

text \<open>
  C8 on the simulated device: an open handle on descriptor 3 is closed and the world has
  no open descriptor left; a handle that was never opened is left as it is.
\<close>

theorem close_idempotent_witness:
  "isOpen (open_handle zero_timeout) \<and>
   \<not> isOpen (initial_members [] 9600 eightbits parity_none stopbits_one flowcontrol_none) \<and>
   fd_' (fst (close sim_os (open_handle zero_timeout) ((sim_start [])\<lparr>sim_fds := [3]\<rparr>))) = -1 \<and>
   sim_fds (snd (close sim_os (open_handle zero_timeout) ((sim_start [])\<lparr>sim_fds := [3]\<rparr>))) = [] \<and>
   close sim_os (initial_members [] 9600 eightbits parity_none stopbits_one flowcontrol_none)
     (sim_start []) =
   (initial_members [] 9600 eightbits parity_none stopbits_one flowcontrol_none, sim_start [])"
  using close_idempotent [of sim_os "open_handle zero_timeout" "(sim_start [])\<lparr>sim_fds := [3]\<rparr>"]
    close_idempotent [of sim_os "initial_members [] 9600 eightbits parity_none stopbits_one
      flowcontrol_none" "sim_start []"]
  by (simp add: handle_eval sim_os_def sim_start_def)

section \<open>Port configuration and the flow control booleans\<close>

lemma set_flowcontrol_ok: "flow_ok s \<Longrightarrow> flow_ok (set_flowcontrol s)"
  by (simp add: set_flowcontrol_def flow_ok_def Let_def)

lemma flow_ok_update [simp]:
  "flow_ok (s\<lparr>fd_' := fd\<rparr>) = flow_ok s"
  "flow_ok (s\<lparr>is_open_' := b\<rparr>) = flow_ok s"
  "flow_ok (s\<lparr>port_' := p\<rparr>) = flow_ok s"
  "flow_ok (s\<lparr>baudrate_' := n\<rparr>) = flow_ok s"
  "flow_ok (s\<lparr>bytesize_' := bs\<rparr>) = flow_ok s"
  "flow_ok (s\<lparr>parity_' := pa\<rparr>) = flow_ok s"
  "flow_ok (s\<lparr>stopbits_' := sb\<rparr>) = flow_ok s"
  "flow_ok (s\<lparr>flowcontrol_' := fc\<rparr>) = flow_ok s"
  "flow_ok (setTimeout t s) = flow_ok s"
  by (simp_all add: flow_ok_def setTimeout_def)

text \<open>
  \<open>reconfigurePort\<close> leaves the members as they are when it throws, and changes only the
  two booleans when it returns.
\<close>

lemma reconfigurePort_state:
  "fst (snd (reconfigurePort pf os s w)) = s \<or>
   fst (snd (reconfigurePort pf os s w)) = set_flowcontrol s"
  unfolding reconfigurePort_def Let_def
  by (simp split: prod.split sum.split option.split)

lemma reconfigurePort_ok:
  "reconfigurePort pf os s w = (r, s', w') \<Longrightarrow> flow_ok s \<Longrightarrow> flow_ok s'"
  using reconfigurePort_state [of pf os s w] set_flowcontrol_ok [of s] by auto

lemma open_impl_ok:
  "open_impl n pf os s w = (r, s', w') \<Longrightarrow> flow_ok s \<Longrightarrow> flow_ok s'"
proof (induction n arbitrary: s w)
  case 0
  then show ?case
    by (subst (asm) open_impl.simps) (auto split: if_splits)
next
  case (Suc n)
  from Suc.prems show ?case
    by (subst (asm) open_impl.simps)
       (auto simp: Let_def split: if_splits prod.splits errno.splits sum.splits
             dest: reconfigurePort_ok Suc.IH)
qed

text \<open>When \<^verbatim>\<open>open\<close> returns, the handle is open.\<close>

lemma open_impl_opens:
  "open_impl n pf os s w = (Some (Inr ()), s', w') \<Longrightarrow> is_open_' s'"
proof (induction n arbitrary: s w)
  case 0
  then show ?case
    by (subst (asm) open_impl.simps) (auto split: if_splits)
next
  case (Suc n)
  from Suc.prems show ?case
    by (subst (asm) open_impl.simps)
       (auto simp: Let_def split: if_splits prod.splits errno.splits sum.splits
             dest: Suc.IH)
qed

lemma close_ok: "close os s w = (s', w') \<Longrightarrow> flow_ok s \<Longrightarrow> flow_ok s'"
  by (auto simp: close_def Let_def split: if_splits)

lemma setter_ok:
  "setBaudrate pf os b s w = (r, s', w') \<Longrightarrow> flow_ok s \<Longrightarrow> flow_ok s'"
  "setBytesize pf os bs s w = (r, s', w') \<Longrightarrow> flow_ok s \<Longrightarrow> flow_ok s'"
  "setParity pf os pa s w = (r, s', w') \<Longrightarrow> flow_ok s \<Longrightarrow> flow_ok s'"
  "setStopbits pf os sb s w = (r, s', w') \<Longrightarrow> flow_ok s \<Longrightarrow> flow_ok s'"
  "setFlowcontrol pf os fc s w = (r, s', w') \<Longrightarrow> flow_ok s \<Longrightarrow> flow_ok s'"
  by (auto simp: setBaudrate_def setBytesize_def setParity_def setStopbits_def
        setFlowcontrol_def Let_def split: if_splits dest: reconfigurePort_ok)

lemma do_call_ok: "do_call pf os c s w = (r, s', w') \<Longrightarrow> flow_ok s \<Longrightarrow> flow_ok s'"
  by (cases c)
     (auto simp: setPort_def split: prod.splits
           dest: open_impl_ok close_ok reconfigurePort_ok setter_ok)

lemma do_calls_ok: "do_calls pf os cs s w = Some (s', w') \<Longrightarrow> flow_ok s \<Longrightarrow> flow_ok s'"
proof (induction cs arbitrary: s w)
  case Nil
  then show ?case by simp
next
  case (Cons c cs)
  then show ?case
    by (auto split: prod.splits option.splits dest: do_call_ok)
qed

lemma initial_members_ok: "flow_ok (initial_members port b bs pa sb fc)"
  by (simp add: initial_members_def) (simp add: flow_ok_def)

lemma SerialImpl_new_ok:
  "SerialImpl_new n pf os port b bs pa sb fc w = (Some (Inr s), w1) \<Longrightarrow> flow_ok s"
  using initial_members_ok [of port b bs pa sb fc]
  by (auto simp: SerialImpl_new_def Let_def
           split: if_splits prod.splits option.splits sum.splits dest: open_impl_ok)

text \<open>
  C9. A handle that the constructor has returned, and the handle after any sequence of
  calls on it (open, close, reconfigurePort, every setter, read and write, each returning
  or throwing), never has both \<open>xonxoff_\<close> and \<open>rtscts_\<close> true.
\<close>

theorem flow_control_exclusive:
  "SerialImpl_new n pf os port b bs pa sb fc w = (Some (Inr s), w1) \<Longrightarrow>
   do_calls pf os cs s w1 = Some (s', w') \<Longrightarrow>
   \<not> (xonxoff_' s' \<and> rtscts_' s')"
  using SerialImpl_new_ok [of n pf os port b bs pa sb fc w s w1] do_calls_ok [of pf os cs s w1 s' w']
  by (simp add: flow_ok_def)

text \<open>
  C9 on the simulated device: constructed with hardware flow control (\<open>rtscts_\<close> true),
  then set to software flow control, closed and opened again (\<open>xonxoff_\<close> true).
\<close>

theorem flow_control_exclusive_witness:
  "\<exists>s w1 s' w'.
     SerialImpl_new 1 linux sim_os ''/dev/ttyS0'' 9600 eightbits parity_none stopbits_one
       flowcontrol_hardware (sim_start []) = (Some (Inr s), w1) \<and>
     do_calls linux sim_os [SetFlowcontrol flowcontrol_software, Close, Open 1] s w1 =
       Some (s', w') \<and>
     rtscts_' s \<and> xonxoff_' s' \<and> \<not> (xonxoff_' s' \<and> rtscts_' s')"
proof -
  define r where "r = SerialImpl_new 1 linux sim_os ''/dev/ttyS0'' 9600 eightbits parity_none
    stopbits_one flowcontrol_hardware (sim_start [])"
  define s where "s = (case fst r of Some (Inr x) \<Rightarrow> x)"
  define w1 where "w1 = snd r"
  define q where
    "q = do_calls linux sim_os [SetFlowcontrol flowcontrol_software, Close, Open 1] s w1"
  define s' where "s' = fst (the q)"
  define w' where "w' = snd (the q)"
  have r: "r = (Some (Inr s), w1)"
    unfolding s_def w1_def r_def
    by (simp add: SerialImpl_new_def open_impl.simps Let_def time_eval handle_eval sim_eval
        configure_eval)
  have q: "q = Some (s', w')"
    unfolding s'_def w'_def q_def s_def w1_def r_def
    by (simp add: SerialImpl_new_def open_impl.simps Let_def time_eval handle_eval sim_eval
        configure_eval setFlowcontrol_def close_def)
  have x: "rtscts_' s \<and> xonxoff_' s'"
    unfolding s'_def w'_def q_def s_def w1_def r_def
    by (simp add: SerialImpl_new_def open_impl.simps Let_def time_eval handle_eval sim_eval
        configure_eval setFlowcontrol_def close_def)
  have "\<not> (xonxoff_' s' \<and> rtscts_' s')"
    using r q unfolding r_def q_def by (rule flow_control_exclusive)
  with r q x show ?thesis unfolding r_def q_def by blast
qed

section \<open>Construction\<close>

lemma initial_members_fields:
  "port_' (initial_members port b bs pa sb fc) = port"
  "baudrate_' (initial_members port b bs pa sb fc) = b"
  "bytesize_' (initial_members port b bs pa sb fc) = bs"
  "parity_' (initial_members port b bs pa sb fc) = pa"
  "stopbits_' (initial_members port b bs pa sb fc) = sb"
  "flowcontrol_' (initial_members port b bs pa sb fc) = fc"
  "fd_' (initial_members port b bs pa sb fc) = -1"
  "is_open_' (initial_members port b bs pa sb fc) = False"
  "timeout_' (initial_members port b bs pa sb fc) = zero_timeout"
  by (simp_all add: initial_members_def setTimeout_def)

text \<open>
  C6, as the claim states it, fails: the constructor with the identifier
  \<^verbatim>\<open>/dev/ttyS0\<close> returns an open handle on descriptor 3, and the world has that
  descriptor open.
\<close>

theorem constructor_opens_named_port:
  "map_option (map_sum id isOpen)
     (fst (SerialImpl_new 1 linux sim_os ''/dev/ttyS0'' 9600 eightbits parity_none stopbits_one
             flowcontrol_none (sim_start []))) = Some (Inr True) \<and>
   map_option (map_sum id fd_')
     (fst (SerialImpl_new 1 linux sim_os ''/dev/ttyS0'' 9600 eightbits parity_none stopbits_one
             flowcontrol_none (sim_start []))) = Some (Inr 3) \<and>
   sim_fds (snd (SerialImpl_new 1 linux sim_os ''/dev/ttyS0'' 9600 eightbits parity_none
                   stopbits_one flowcontrol_none (sim_start []))) = [3]"
  by (simp add: SerialImpl_new_def open_impl.simps Let_def time_eval handle_eval sim_eval
      configure_eval)

text \<open>
  C6, amended. The constructor stores the port profile, with no descriptor and the flag
  clear, before anything else. With an empty identifier that is all: the handle is
  returned as stored and no system call is made. With any other identifier the
  constructor calls \<^verbatim>\<open>open\<close> itself, and a handle it returns is open.
\<close>

theorem constructor_opens_unless_port_empty:
  "port_' (initial_members port b bs pa sb fc) = port \<and>
   baudrate_' (initial_members port b bs pa sb fc) = b \<and>
   bytesize_' (initial_members port b bs pa sb fc) = bs \<and>
   parity_' (initial_members port b bs pa sb fc) = pa \<and>
   stopbits_' (initial_members port b bs pa sb fc) = sb \<and>
   flowcontrol_' (initial_members port b bs pa sb fc) = fc \<and>
   fd_' (initial_members port b bs pa sb fc) = -1 \<and>
   \<not> isOpen (initial_members port b bs pa sb fc) \<and>
   (port = [] \<longrightarrow>
      SerialImpl_new n pf os port b bs pa sb fc w =
        (Some (Inr (initial_members port b bs pa sb fc)), w)) \<and>
   (port \<noteq> [] \<longrightarrow>
      (\<forall>s w1. SerialImpl_new n pf os port b bs pa sb fc w = (Some (Inr s), w1) \<longrightarrow> isOpen s))"
proof -
  have "isOpen s" if "port \<noteq> []"
    and "SerialImpl_new n pf os port b bs pa sb fc w = (Some (Inr s), w1)" for s w1
    using that
    by (auto simp: SerialImpl_new_def Let_def initial_members_fields isOpen_def
             split: prod.splits option.splits sum.splits dest: open_impl_opens)
  then show ?thesis
    by (simp add: initial_members_fields isOpen_def SerialImpl_new_def)
qed

text \<open>C6, amended, on the simulated device: an empty and a non-empty identifier.\<close>

theorem constructor_opens_unless_port_empty_witness:
  "SerialImpl_new 1 linux sim_os [] 9600 eightbits parity_none stopbits_one flowcontrol_none
     (sim_start []) =
   (Some (Inr (initial_members [] 9600 eightbits parity_none stopbits_one flowcontrol_none)),
    sim_start []) \<and>
   ''/dev/ttyS0'' \<noteq> [] \<and>
   map_option (map_sum id isOpen)
     (fst (SerialImpl_new 1 linux sim_os ''/dev/ttyS0'' 9600 eightbits parity_none stopbits_one
             flowcontrol_none (sim_start []))) = Some (Inr True)"
proof -
  define r where "r = SerialImpl_new 1 linux sim_os ''/dev/ttyS0'' 9600 eightbits parity_none
    stopbits_one flowcontrol_none (sim_start [])"
  define s where "s = (case fst r of Some (Inr x) \<Rightarrow> x)"
  have r: "r = (Some (Inr s), snd r)"
    unfolding s_def r_def
    by (simp add: SerialImpl_new_def open_impl.simps Let_def time_eval handle_eval sim_eval
        configure_eval)
  have "isOpen s"
    using constructor_opens_unless_port_empty [of "''/dev/ttyS0''" 9600 eightbits parity_none
        stopbits_one flowcontrol_none 1 linux sim_os "sim_start []"] r
    unfolding r_def by blast
  then have "map_option (map_sum id isOpen) (fst r) = Some (Inr True)"
    by (subst r) simp
  moreover have "SerialImpl_new 1 linux sim_os [] 9600 eightbits parity_none stopbits_one
      flowcontrol_none (sim_start []) =
    (Some (Inr (initial_members [] 9600 eightbits parity_none stopbits_one flowcontrol_none)),
     sim_start [])"
    using constructor_opens_unless_port_empty [of "[]" 9600 eightbits parity_none
        stopbits_one flowcontrol_none 1 linux sim_os "sim_start []"]
    by blast
  ultimately show ?thesis unfolding r_def by simp
qed

section \<open>The setters on an open handle\<close>

text \<open>
  C5, as the claim states it, fails for the identifier and for the timeout profile: on an
  open handle \<open>setPort\<close> and \<open>setTimeout\<close> leave the line settings of the device unset
  (no \<^verbatim>\<open>tcsetattr\<close>), where \<open>reconfigurePort\<close> on the same handle sets them once.
\<close>

theorem setPort_setTimeout_store_only:
  "isOpen (open_handle zero_timeout) \<and>
   sim_sets (snd (snd (do_call linux sim_os (SetPort ''/dev/ttyS1'')
                         (open_handle zero_timeout) (sim_start [])))) = 0 \<and>
   sim_sets (snd (snd (do_call linux sim_os (SetTimeout zero_timeout)
                         (open_handle zero_timeout) (sim_start [])))) = 0 \<and>
   sim_sets (snd (snd (reconfigurePort linux sim_os
                         (setPort ''/dev/ttyS1'' (open_handle zero_timeout))
                         (sim_start [])))) = 1"
  by (simp add: setPort_def Let_def time_eval handle_eval sim_eval configure_eval)

text \<open>
  C5, amended. On an open handle the setters of the baud rate, the byte size, the parity,
  the stop bits and the flow control store the new value and run \<open>reconfigurePort\<close> at
  once; the setters of the identifier and of the timeout profile only store their
  argument and make no system call.
\<close>

theorem setters_reconfigure_open_handle:
  "isOpen s \<Longrightarrow>
   setBaudrate pf os b s w = reconfigurePort pf os (s\<lparr>baudrate_' := b\<rparr>) w \<and>
   setBytesize pf os bs s w = reconfigurePort pf os (s\<lparr>bytesize_' := bs\<rparr>) w \<and>
   setParity pf os pa s w = reconfigurePort pf os (s\<lparr>parity_' := pa\<rparr>) w \<and>
   setStopbits pf os sb s w = reconfigurePort pf os (s\<lparr>stopbits_' := sb\<rparr>) w \<and>
   setFlowcontrol pf os fc s w = reconfigurePort pf os (s\<lparr>flowcontrol_' := fc\<rparr>) w \<and>
   do_call pf os (SetPort p) s w = (Some (Inr 0), s\<lparr>port_' := p\<rparr>, w) \<and>
   do_call pf os (SetTimeout t) s w = (Some (Inr 0), setTimeout t s, w)"
  by (simp add: isOpen_def setBaudrate_def setBytesize_def setParity_def setStopbits_def
      setFlowcontrol_def setPort_def)

text \<open>
  C5, amended, on the simulated device: \<open>setBaudrate\<close> on an open handle sets the line
  settings once, with the speed code of 115200; \<open>setPort\<close> leaves the world as it is.
\<close>

theorem setters_reconfigure_open_handle_witness:
  "isOpen (open_handle zero_timeout) \<and>
   sim_sets (snd (snd (setBaudrate linux sim_os 115200 (open_handle zero_timeout)
                         (sim_start [])))) = 1 \<and>
   c_ospeed (sim_attr (snd (snd (setBaudrate linux sim_os 115200 (open_handle zero_timeout)
                         (sim_start []))))) = 4098 \<and>
   snd (snd (do_call linux sim_os (SetPort ''/dev/ttyS1'') (open_handle zero_timeout)
               (sim_start []))) = sim_start []"
proof -
  have o: "isOpen (open_handle zero_timeout)"
    by (simp add: handle_eval)
  have "sim_sets (snd (snd (reconfigurePort linux sim_os
            ((open_handle zero_timeout)\<lparr>baudrate_' := 115200\<rparr>) (sim_start [])))) = 1 \<and>
        c_ospeed (sim_attr (snd (snd (reconfigurePort linux sim_os
            ((open_handle zero_timeout)\<lparr>baudrate_' := 115200\<rparr>) (sim_start []))))) = 4098"
    by (simp add: Let_def time_eval handle_eval sim_eval configure_eval)
  with o setters_reconfigure_open_handle [OF o, of linux sim_os 115200 "sim_start []"
      _ _ _ _ "''/dev/ttyS1''"]
  show ?thesis by simp
qed

section \<open>The transfer loops\<close>

text \<open>One pass through the body of each loop, from the results of its system calls.\<close>

lemma read_loop_pass:
  assumes "c < sz" and "timespec_now os w = (now, w1)"
    and "pselect os for_reading (fd_' s)
           (timespec_min (timespec_minus e now) (inter_byte_timeout_' s)) w1 =
         ((r, err, isset), w2)"
    and "sys_read os (fd_' s) (sz - c) w2 = (k, w3)"
  shows "read_loop (Suc n) os s e sz c w =
     (if r < 0
      then (if err = EINTR then read_loop n os s e sz c w2
            else (Some (Inl (IOException_errno err)), w2))
      else if r = 0 then (Some (Inr c), w2)
      else if isset
      then (if k < 1
            then (Some (Inl (SerialException
                    ''device reports readiness to read but returned no data (device disconnected?)'')), w3)
            else if c + nat k = sz then (Some (Inr (c + nat k)), w3)
            else if c + nat k < sz then read_loop n os s e sz (c + nat k) w3
            else (Some (Inl (SerialException
                    ''read over read, too many bytes where read, this shouldn't happen, might be a logical error!'')), w3))
      else (Some (Inl (IOException_msg
              ''pselect reports ready to read, but our fd isn't in the list, this shouldn't happen!'')), w2))"
  using assms by (subst read_loop.simps) (simp add: Let_def)

lemma write_loop_pass:
  assumes "c < len" and "timespec_now os w = (now, w1)"
    and "pselect os for_writing (fd_' s) (timespec_minus e now) w1 = ((r, err, isset), w2)"
    and "sys_write os (fd_' s) (len - c) w2 = (k, w3)"
  shows "write_loop (Suc n) os s e len c w =
     (if r < 0
      then (if err = EINTR then write_loop n os s e len c w2
            else (Some (Inl (IOException_errno err)), w2))
      else if r = 0 then (Some (Inr c), w2)
      else if isset
      then (if k < 1
            then (Some (Inl (SerialException
                    ''device reports readiness to write but returned no data (device disconnected?)'')), w3)
            else if c + nat k = len then (Some (Inr (c + nat k)), w3)
            else if c + nat k < len then write_loop n os s e len (c + nat k) w3
            else (Some (Inl (SerialException
                    ''write over wrote, too many bytes where written, this shouldn't happen, might be a logical error!'')), w3))
      else (Some (Inl (IOException_msg
              ''select reports ready to write, but our fd isn't in the list, this shouldn't happen!'')), w2))"
  using assms by (subst write_loop.simps) (simp add: Let_def)

lemma loop_done:
  "\<not> c < sz \<Longrightarrow> read_loop n os s e sz c w = (Some (Inr c), w)"
  "\<not> c < sz \<Longrightarrow> write_loop n os s e sz c w = (Some (Inr c), w)"
  by (subst read_loop.simps, simp) (subst write_loop.simps, simp)



text \<open>The calls of the observed system.\<close>

lemma logging_calls:
  "timespec_now os w = (now, w1) \<Longrightarrow> timespec_now (logging os) (w, l) = (now, (w1, l))"
  "pselect os d fd t w = (x, w1) \<Longrightarrow> pselect (logging os) d fd t (w, l) = (x, (w1, l @ [t]))"
  "sys_read os fd n w = (k, w1) \<Longrightarrow> sys_read (logging os) fd n (w, l) = (k, (w1, l))"
  "sys_write os fd n w = (k, w1) \<Longrightarrow> sys_write (logging os) fd n (w, l) = (k, (w1, l))"
  "ioctl_TIOCINQ os fd w = (y, w1) \<Longrightarrow> ioctl_TIOCINQ (logging os) fd (w, l) = (y, (w1, l))"
  by (simp_all add: logging_def timespec_now_def)

text \<open>The waits of the read loop, in order, and where each bound comes from.\<close>

lemma read_loop_logged:
  "read_loop n (logging os) s e sz c (w, l) = (res, (w', l')) \<Longrightarrow>
   \<exists>x. l' = l @ x \<and>
       (\<forall>b\<in>set x. \<exists>now. b = timespec_min (timespec_minus e now) (inter_byte_timeout_' s))"
proof (induction n arbitrary: c w l)
  case 0
  then show ?case
    by (subst (asm) read_loop.simps) (auto split: if_splits)
next
  case (Suc n)
  show ?case
  proof (cases "c < sz")
    case False
    with Suc.prems show ?thesis by (simp add: loop_done)
  next
    case True
    obtain now w1 where c1: "timespec_now os w = (now, w1)"
      by (cases "timespec_now os w")
    define b where "b = timespec_min (timespec_minus e now) (inter_byte_timeout_' s)"
    obtain r err isset w2 where c2: "pselect os for_reading (fd_' s) b w1 = ((r, err, isset), w2)"
      by (metis surj_pair)
    obtain k w3 where c3: "sys_read os (fd_' s) (sz - c) w2 = (k, w3)"
      by (cases "sys_read os (fd_' s) (sz - c) w2")
    note step = read_loop_pass [OF True logging_calls(1) [OF c1, of l]
        logging_calls(2) [OF c2 [unfolded b_def], of l]
        logging_calls(3) [OF c3, of "l @ [b]", unfolded b_def], where n = n]
    define P where "P = (\<exists>x. l' = l @ x \<and>
       (\<forall>b\<in>set x. \<exists>now. b = timespec_min (timespec_minus e now) (inter_byte_timeout_' s)))"
    have ih: P if "read_loop n (logging os) s e sz c2 (w4, l @ [b]) = (res, (w', l'))" for c2 w4
    proof -
      from Suc.IH [OF that] obtain x where
        "l' = (l @ [b]) @ x"
        "\<forall>b\<in>set x. \<exists>now. b = timespec_min (timespec_minus e now) (inter_byte_timeout_' s)"
        by blast
      then show ?thesis
        unfolding P_def by (intro exI [of _ "b # x"]) (auto simp: b_def)
    qed
    have here: P if "l' = l @ [b]"
      using that unfolding P_def by (intro exI [of _ "[b]"]) (auto simp: b_def)
    from Suc.prems have P
      unfolding step b_def [symmetric]
      by (auto split: if_splits intro: ih here)
    then show ?thesis by (simp add: P_def)
  qed
qed


lemma write_loop_logged:
  "write_loop n (logging os) s e len c (w, l) = (res, (w', l')) \<Longrightarrow>
   \<exists>x. l' = l @ x \<and> (\<forall>b\<in>set x. \<exists>now. b = timespec_minus e now)"
proof (induction n arbitrary: c w l)
  case 0
  then show ?case
    by (subst (asm) write_loop.simps) (auto split: if_splits)
next
  case (Suc n)
  show ?case
  proof (cases "c < len")
    case False
    with Suc.prems show ?thesis by (simp add: loop_done)
  next
    case True
    obtain now w1 where c1: "timespec_now os w = (now, w1)"
      by (cases "timespec_now os w")
    define b where "b = timespec_minus e now"
    obtain r err isset w2 where c2: "pselect os for_writing (fd_' s) b w1 = ((r, err, isset), w2)"
      by (metis surj_pair)
    obtain k w3 where c3: "sys_write os (fd_' s) (len - c) w2 = (k, w3)"
      by (cases "sys_write os (fd_' s) (len - c) w2")
    note step = write_loop_pass [OF True logging_calls(1) [OF c1, of l]
        logging_calls(2) [OF c2 [unfolded b_def], of l]
        logging_calls(4) [OF c3, of "l @ [b]", unfolded b_def], where n = n]
    define P where "P = (\<exists>x. l' = l @ x \<and> (\<forall>b\<in>set x. \<exists>now. b = timespec_minus e now))"
    have ih: P if "write_loop n (logging os) s e len c2 (w4, l @ [b]) = (res, (w', l'))" for c2 w4
    proof -
      from Suc.IH [OF that] obtain x where
        "l' = (l @ [b]) @ x" "\<forall>b\<in>set x. \<exists>now. b = timespec_minus e now"
        by blast
      then show ?thesis
        unfolding P_def by (intro exI [of _ "b # x"]) (auto simp: b_def)
    qed
    have here: P if "l' = l @ [b]"
      using that unfolding P_def by (intro exI [of _ "[b]"]) (auto simp: b_def)
    from Suc.prems have P
      unfolding step b_def [symmetric]
      by (auto split: if_splits intro: ih here)
    then show ?thesis by (simp add: P_def)
  qed
qed

text \<open>The first wait of a pass is made with the bound computed from the clock of that pass.\<close>

lemma read_loop_first_wait:
  assumes "c < sz" and "timespec_now os w = (now, w1)"
  shows "\<exists>res w' x. read_loop (Suc n) (logging os) s e sz c (w, l) =
     (res, (w', l @ timespec_min (timespec_minus e now) (inter_byte_timeout_' s) # x))"
proof -
  define b where "b = timespec_min (timespec_minus e now) (inter_byte_timeout_' s)"
  obtain r err isset w2 where c2: "pselect os for_reading (fd_' s) b w1 = ((r, err, isset), w2)"
    by (metis surj_pair)
  obtain k w3 where c3: "sys_read os (fd_' s) (sz - c) w2 = (k, w3)"
    by (cases "sys_read os (fd_' s) (sz - c) w2")
  note step = read_loop_pass [OF assms(1) logging_calls(1) [OF assms(2), of l]
      logging_calls(2) [OF c2 [unfolded b_def], of l]
      logging_calls(3) [OF c3, of "l @ [b]", unfolded b_def], where n = n]
  obtain res w' l' where
    R: "read_loop (Suc n) (logging os) s e sz c (w, l) = (res, (w', l'))"
    by (metis surj_pair)
  define P where "P = (\<exists>x. l' = l @ b # x)"
  have later: P if "read_loop n (logging os) s e sz c2 (w4, l @ [b]) = (res, (w', l'))"
    for c2 w4
    using read_loop_logged [OF that] unfolding P_def by auto
  have here: P if "l' = l @ [b]"
    using that unfolding P_def by simp
  from R have P
    unfolding step b_def [symmetric]
    by (auto split: if_splits intro: later here)
  with R show ?thesis unfolding P_def b_def by auto
qed

lemma write_loop_first_wait:
  assumes "c < len" and "timespec_now os w = (now, w1)"
  shows "\<exists>res w' x. write_loop (Suc n) (logging os) s e len c (w, l) =
     (res, (w', l @ timespec_minus e now # x))"
proof -
  define b where "b = timespec_minus e now"
  obtain r err isset w2 where c2: "pselect os for_writing (fd_' s) b w1 = ((r, err, isset), w2)"
    by (metis surj_pair)
  obtain k w3 where c3: "sys_write os (fd_' s) (len - c) w2 = (k, w3)"
    by (cases "sys_write os (fd_' s) (len - c) w2")
  note step = write_loop_pass [OF assms(1) logging_calls(1) [OF assms(2), of l]
      logging_calls(2) [OF c2 [unfolded b_def], of l]
      logging_calls(4) [OF c3, of "l @ [b]", unfolded b_def], where n = n]
  obtain res w' l' where
    R: "write_loop (Suc n) (logging os) s e len c (w, l) = (res, (w', l'))"
    by (metis surj_pair)
  define P where "P = (\<exists>x. l' = l @ b # x)"
  have later: P if "write_loop n (logging os) s e len c2 (w4, l @ [b]) = (res, (w', l'))"
    for c2 w4
    using write_loop_logged [OF that] unfolding P_def by auto
  have here: P if "l' = l @ [b]"
    using that unfolding P_def by simp
  from R have P
    unfolding step b_def [symmetric]
    by (auto split: if_splits intro: later here)
  with R show ?thesis unfolding P_def b_def by auto
qed

text \<open>
  Every pass of the read loop calls \<open>pselect\<close> with the bound
  \<open>min (deadline - now) inter_byte_timeout\<close>, and every pass of the write loop with
  \<open>deadline - now\<close>, for the clock read in that pass: the bound is the next entry of the
  list of waits. Neither loop compares it with zero first.
\<close>

lemma wait_bound_every_pass:
  "(count < requested \<and> timespec_now os w = (now, w1) \<longrightarrow>
      (\<exists>res w' x. read_loop (Suc k) (logging os) s endtime requested count (w, l) =
         (res, (w', l @ timespec_min (timespec_minus endtime now) (inter_byte_timeout_' s) # x)))) \<and>
   (count < requested \<and> timespec_now os w = (now, w1) \<longrightarrow>
      (\<exists>res w' x. write_loop (Suc k) (logging os) s endtime requested count (w, l) =
         (res, (w', l @ timespec_minus endtime now # x))))"
  using read_loop_first_wait [of count requested os w now w1 k s endtime l]
    write_loop_first_wait [of count requested os w now w1 k s endtime l]
  by blast

text \<open>A pass 1 ms after the deadline, on the simulated device.\<close>

lemma wait_bound_every_pass_example:
  "hd (snd (snd (read_loop 1 (logging sim_os) (open_handle zero_timeout)
                   \<lparr>tv_sec = 0, tv_nsec = 0\<rparr> 1 0
                   ((sim_start [])\<lparr>sim_time := \<lparr>tv_sec = 0, tv_nsec = 1000000\<rparr>\<rparr>, [])))) =
     \<lparr>tv_sec = -1, tv_nsec = 999000000\<rparr> \<and>
   hd (snd (snd (write_loop 1 (logging sim_os) (open_handle zero_timeout)
                   \<lparr>tv_sec = 0, tv_nsec = 0\<rparr> 1 0
                   ((sim_start [])\<lparr>sim_time := \<lparr>tv_sec = 0, tv_nsec = 1000000\<rparr>\<rparr>, [])))) =
     \<lparr>tv_sec = -1, tv_nsec = 999000000\<rparr>"
proof -
  define H where "H = open_handle zero_timeout"
  define W where "W = (sim_start [])\<lparr>sim_time := \<lparr>tv_sec = 0, tv_nsec = 1000000\<rparr>\<rparr>"
  have r1: "(0::nat) < 1" by simp
  have r2: "timespec_now sim_os W = (\<lparr>tv_sec = 0, tv_nsec = 1000000\<rparr>, W)"
    by (simp add: W_def sim_eval time_eval)
  have b: "timespec_min (timespec_minus \<lparr>tv_sec = 0, tv_nsec = 0\<rparr>
      \<lparr>tv_sec = 0, tv_nsec = 1000000\<rparr>) (inter_byte_timeout_' H) =
      \<lparr>tv_sec = -1, tv_nsec = 999000000\<rparr>"
    and c: "timespec_minus \<lparr>tv_sec = 0, tv_nsec = 0\<rparr> \<lparr>tv_sec = 0, tv_nsec = 1000000\<rparr> =
      \<lparr>tv_sec = -1, tv_nsec = 999000000\<rparr>"
    by (simp_all add: H_def time_eval handle_eval)
  note t = wait_bound_every_pass [of 0 1 sim_os W "\<lparr>tv_sec = 0, tv_nsec = 1000000\<rparr>" W 0 H
      "\<lparr>tv_sec = 0, tv_nsec = 0\<rparr>" "[]"]
  from t r1 r2 obtain res w' x where
    "read_loop (Suc 0) (logging sim_os) H \<lparr>tv_sec = 0, tv_nsec = 0\<rparr> 1 0 (W, []) =
       (res, (w', [] @ \<lparr>tv_sec = -1, tv_nsec = 999000000\<rparr> # x))"
    unfolding b by blast
  then have r: "hd (snd (snd (read_loop 1 (logging sim_os) H \<lparr>tv_sec = 0, tv_nsec = 0\<rparr> 1 0
      (W, [])))) = \<lparr>tv_sec = -1, tv_nsec = 999000000\<rparr>"
    by simp
  from t r1 r2 obtain res w' x where
    "write_loop (Suc 0) (logging sim_os) H \<lparr>tv_sec = 0, tv_nsec = 0\<rparr> 1 0 (W, []) =
       (res, (w', [] @ \<lparr>tv_sec = -1, tv_nsec = 999000000\<rparr> # x))"
    unfolding c by blast
  then have "hd (snd (snd (write_loop 1 (logging sim_os) H \<lparr>tv_sec = 0, tv_nsec = 0\<rparr> 1 0
      (W, [])))) = \<lparr>tv_sec = -1, tv_nsec = 999000000\<rparr>"
    by simp
  with r show ?thesis unfolding H_def W_def by simp
qed


text \<open>
  C4 is what lines 520-523, 546 and 562-565 of \<^verbatim>\<open>read\<close> (and their like in \<^verbatim>\<open>write\<close>)
  set out to do, a deadline after which the call returns its count, and the code fails
  it: once the clock has passed the deadline when a pass reads it, the remaining time is
  negative and is handed to \<open>pselect\<close> as it is. On a device whose clock advances by
  1 ms per reading, a read and a write of one byte with the zero profile find their
  deadline 1 ms in the past and call \<open>pselect\<close> with the bound -1 ms; the device rejects
  it (\<^verbatim>\<open>EINVAL\<close>, error 22), and the call throws instead of returning the count 0. A read
  of two bytes with a deadline of 3 s, whose first byte arrives at 3.0005 s during the
  first wait, takes that byte, finds the deadline 0.5 ms in the past, calls \<open>pselect\<close>
  with -0.5 ms and throws instead of returning the count 1: the byte is lost to the
  caller.
\<close>

theorem wait_called_after_deadline:
  "fst (read 1 sim_os (open_handle zero_timeout) 1
          ((sim_start [])\<lparr>sim_tick := \<lparr>tv_sec = 0, tv_nsec = 1000000\<rparr>\<rparr>)) =
     Some (Inl (IOException_errno (errno_other 22))) \<and>
   sim_waits (snd (read 1 sim_os (open_handle zero_timeout) 1
          ((sim_start [])\<lparr>sim_tick := \<lparr>tv_sec = 0, tv_nsec = 1000000\<rparr>\<rparr>))) =
     [\<lparr>tv_sec = -1, tv_nsec = 999000000\<rparr>] \<and>
   fst (write_impl 1 sim_os (open_handle zero_timeout) 1
          ((sim_start [])\<lparr>sim_tick := \<lparr>tv_sec = 0, tv_nsec = 1000000\<rparr>\<rparr>)) =
     Some (Inl (IOException_errno (errno_other 22))) \<and>
   sim_waits (snd (write_impl 1 sim_os (open_handle zero_timeout) 1
          ((sim_start [])\<lparr>sim_tick := \<lparr>tv_sec = 0, tv_nsec = 1000000\<rparr>\<rparr>))) =
     [\<lparr>tv_sec = -1, tv_nsec = 999000000\<rparr>] \<and>
   fst (read 2 sim_os (open_handle (profile 10000 1000 0 0 0)) 2
          ((sim_start [\<lparr>tv_sec = 3, tv_nsec = 500000\<rparr>])
             \<lparr>sim_tick := \<lparr>tv_sec = 0, tv_nsec = 1000000\<rparr>\<rparr>)) =
     Some (Inl (IOException_errno (errno_other 22))) \<and>
   sim_waits (snd (read 2 sim_os (open_handle (profile 10000 1000 0 0 0)) 2
          ((sim_start [\<lparr>tv_sec = 3, tv_nsec = 500000\<rparr>])
             \<lparr>sim_tick := \<lparr>tv_sec = 0, tv_nsec = 1000000\<rparr>\<rparr>))) =
     [\<lparr>tv_sec = 2, tv_nsec = 999000000\<rparr>, \<lparr>tv_sec = -1, tv_nsec = 999500000\<rparr>] \<and>
   sim_rx (snd (read 2 sim_os (open_handle (profile 10000 1000 0 0 0)) 2
          ((sim_start [\<lparr>tv_sec = 3, tv_nsec = 500000\<rparr>])
             \<lparr>sim_tick := \<lparr>tv_sec = 0, tv_nsec = 1000000\<rparr>\<rparr>))) = []"
  by (simp add: loop_eval time_eval handle_eval sim_eval)
section \<open>The deadline of a read\<close>

text \<open>
  C1. With the profile (read constant 50 ms, read multiplier 0) and 100 requested bytes at
  clock 0, the expiry point of the read is 5.05 s: 50 ms plus 100 times 50 ms. The formula
  of the claim, with the multiplier field of the profile, gives 0.05 s. On the simulated
  device, where nothing arrives, that read returns 0 bytes after one wait of 5.05 s.
\<close>

theorem read_endtime_ignores_multiplier:
  "read_endtime (setTimeout (profile 10000 50 0 0 0) s) \<lparr>tv_sec = 0, tv_nsec = 0\<rparr> 100 =
     \<lparr>tv_sec = 5, tv_nsec = 50000000\<rparr> \<and>
   timespec_plus (timespec_plus \<lparr>tv_sec = 0, tv_nsec = 0\<rparr> (timespec_from_millis 50))
     (timespec_times (timespec_from_millis 0) 100) = \<lparr>tv_sec = 0, tv_nsec = 50000000\<rparr> \<and>
   fst (read 5 sim_os (open_handle (profile 10000 50 0 0 0)) 100 (sim_start [])) =
     Some (Inr 0) \<and>
   sim_waits (snd (read 5 sim_os (open_handle (profile 10000 50 0 0 0)) 100 (sim_start []))) =
     [\<lparr>tv_sec = 5, tv_nsec = 50000000\<rparr>] \<and>
   sim_time (snd (read 5 sim_os (open_handle (profile 10000 50 0 0 0)) 100 (sim_start []))) =
     \<lparr>tv_sec = 5, tv_nsec = 50000000\<rparr>"
  by (simp add: loop_eval time_eval handle_eval sim_eval)

section \<open>The inter-byte timeout of a read\<close>

text \<open>
  C3, as the claim states it, fails. Profile: inter-byte timeout 0, read constant 5000 ms.
  One byte is requested and arrives at 2 s, before the deadline (10 s as the source
  computes it, 5 s by the formula of the specification). The only wait of the read has the
  bound 0, and the read returns 0 bytes; with an inter-byte timeout of 10 s the same read
  returns the byte.
\<close>

theorem zero_inter_byte_timeout_misses_byte:
  "fst (read 5 sim_os (open_handle (profile 0 5000 0 0 0)) 1
          (sim_start [\<lparr>tv_sec = 2, tv_nsec = 0\<rparr>])) = Some (Inr 0) \<and>
   sim_waits (snd (read 5 sim_os (open_handle (profile 0 5000 0 0 0)) 1
          (sim_start [\<lparr>tv_sec = 2, tv_nsec = 0\<rparr>]))) = [\<lparr>tv_sec = 0, tv_nsec = 0\<rparr>] \<and>
   read_endtime (open_handle (profile 0 5000 0 0 0)) \<lparr>tv_sec = 0, tv_nsec = 0\<rparr> 1 =
     \<lparr>tv_sec = 10, tv_nsec = 0\<rparr> \<and>
   fst (read 5 sim_os (open_handle (profile 10000 5000 0 0 0)) 1
          (sim_start [\<lparr>tv_sec = 2, tv_nsec = 0\<rparr>])) = Some (Inr 1)"
  by (simp add: loop_eval time_eval handle_eval sim_eval)

text \<open>A cutoff of zero milliseconds makes the bound of a wait zero or negative.\<close>

lemma zero_cutoff_bound:
  "total_ns (timespec_min (timespec_minus e now) (timespec_from_millis 0)) \<le> 0"
proof -
  define r where "r = timespec_minus e now"
  have z: "timespec_from_millis 0 = \<lparr>tv_sec = 0, tv_nsec = 0\<rparr>"
    by (simp add: timespec_from_millis_def normalize_eq)
  have n: "tv_nsec r < 1000000000"
    by (simp add: r_def timespec_minus_def normalize_range)
  have "total_ns r \<le> 0" if "tv_sec r < 0 \<or> (tv_sec r = 0 \<and> tv_nsec r < 0)"
    using that n by (auto simp: total_ns_def)
  then show ?thesis
    by (simp add: r_def [symmetric] z timespec_min_def total_ns_def)
qed

lemma logging_available:
  "available os s w = (a, w1) \<Longrightarrow> available (logging os) s (w, l) = (a, (w1, l))"
  by (auto simp: available_def logging_def Let_def split: prod.splits if_splits)

text \<open>The waits of a whole \<open>read\<close>: those of its loop, for one expiry point.\<close>

lemma read_logged:
  assumes "read n (logging os) s sz (w, l) = (res, (w', l'))"
  shows "\<exists>x e. l' = l @ x \<and>
       (\<forall>b\<in>set x. \<exists>now. b = timespec_min (timespec_minus e now) (inter_byte_timeout_' s))"
proof (cases "is_open_' s")
  case False
  with assms have "l' = l" by (simp add: read_def)
  then show ?thesis by simp
next
  case True
  obtain now w1 where c1: "timespec_now os w = (now, w1)"
    by (cases "timespec_now os w")
  obtain a w2 where c2: "available os s w1 = (a, w2)"
    by (cases "available os s w1")
  obtain k w3 where c3: "sys_read os (fd_' s) sz w2 = (k, w3)"
    by (cases "sys_read os (fd_' s) sz w2")
  define P where "P = (\<exists>x e. l' = l @ x \<and>
       (\<forall>b\<in>set x. \<exists>now. b = timespec_min (timespec_minus e now) (inter_byte_timeout_' s)))"
  have loop: P if "read_loop n (logging os) s e sz c (w4, l) = (res, (w', l'))" for e c w4
    using read_loop_logged [OF that] unfolding P_def by blast
  have here: P if "l' = l"
    using that unfolding P_def by simp
  from assms True have P
    by (auto simp: read_def Let_def logging_calls(1) [OF c1] logging_available [OF c2]
          logging_calls(3) [OF c3]
        split: sum.splits if_splits intro: loop here)
  then show ?thesis by (simp add: P_def)
qed

text \<open>
  C3, amended. With a profile whose inter-byte timeout is 0, every wait that a \<open>read\<close>
  makes has a bound that is zero or negative: the cutoff is zero, not absent, and the read
  only polls for what is ready.
\<close>

theorem zero_inter_byte_timeout_only_polls:
  "inter_byte_timeout t = 0 \<Longrightarrow>
   read n (logging os) (setTimeout t s) requested (w, l) = (res, (w', l')) \<Longrightarrow>
   \<exists>x. l' = l @ x \<and> (\<forall>b\<in>set x. total_ns b \<le> 0)"
proof -
  assume z: "inter_byte_timeout t = 0"
    and r: "read n (logging os) (setTimeout t s) requested (w, l) = (res, (w', l'))"
  from read_logged [OF r] obtain x e where
    x: "l' = l @ x"
      "\<forall>b\<in>set x. \<exists>now. b = timespec_min (timespec_minus e now)
                                 (inter_byte_timeout_' (setTimeout t s))"
    by blast
  have "\<forall>b\<in>set x. total_ns b \<le> 0"
    using x(2) z by (auto simp: cached_after_setTimeout zero_cutoff_bound)
  with x(1) show ?thesis by blast
qed

text \<open>C3, amended, on the simulated device: the one wait of that read has the bound 0.\<close>

theorem zero_inter_byte_timeout_only_polls_witness:
  "inter_byte_timeout (profile 0 5000 0 0 0) = 0 \<and>
   snd (snd (read 5 (logging sim_os) (setTimeout (profile 0 5000 0 0 0) (open_handle zero_timeout))
               1 (sim_start [\<lparr>tv_sec = 2, tv_nsec = 0\<rparr>], []))) =
     [\<lparr>tv_sec = 0, tv_nsec = 0\<rparr>] \<and>
   total_ns \<lparr>tv_sec = 0, tv_nsec = 0\<rparr> \<le> 0"
proof -
  define r where "r = read 5 (logging sim_os)
     (setTimeout (profile 0 5000 0 0 0) (open_handle zero_timeout)) 1
     (sim_start [\<lparr>tv_sec = 2, tv_nsec = 0\<rparr>], [])"
  have z: "inter_byte_timeout (profile 0 5000 0 0 0) = 0"
    by (simp add: profile_def)
  have e: "r = (fst r, (fst (snd r), snd (snd r)))"
    by simp
  have l: "snd (snd r) = [\<lparr>tv_sec = 0, tv_nsec = 0\<rparr>]"
    unfolding r_def
    by (simp add: loop_eval time_eval handle_eval sim_eval logging_def)
  from zero_inter_byte_timeout_only_polls [OF z e [unfolded r_def]]
  have "\<forall>b\<in>set (snd (snd r)). total_ns b \<le> 0"
    unfolding r_def by simp
  with l have "total_ns \<lparr>tv_sec = 0, tv_nsec = 0\<rparr> \<le> 0"
    by simp
  with z l show ?thesis unfolding r_def by simp
qed

end
